theory Spec2Isabelle
  imports Complex_Main "HOL-Library.Sublist"
begin

section \<open>Go values shared by the search service, the MCP tool and the outbox worker\<close>

text \<open>
  A Go \<open>string\<close> is a sequence of bytes, here a \<open>char list\<close>. A Go \<open>error\<close> is
  identified with its message (\<open>err.Error()\<close>); a nil error is \<open>None\<close>, and a call
  returning \<open>(value, error)\<close> returns \<open>Inl message\<close> or \<open>Inr value\<close>.
\<close>

type_synonym error = string

text \<open>
  A value of Go's \<open>interface{}\<close>/\<open>any\<close>, as it occurs in an outbox payload
  (\<open>map[string]interface{}\<close>) and in the argument map of an MCP tool call. A finite
  \<open>float64\<close> is the rational it denotes.
\<close>

datatype any =
    ANil
  | ABool bool
  | AString string
  | AFloat64 rat
  | AInt int
  | ASlice "any list"
  | AMap "(string \<times> any) list"

subsection \<open>strings.TrimSpace and strings.Contains\<close>

text \<open>
  \<open>strings.TrimSpace\<close> removes every leading and trailing rune for which
  \<open>unicode.IsSpace\<close> holds. On the bytes of the string these runes are the following
  UTF-8 sequences: tab, line feed, vertical tab, form feed, carriage return, space,
  U+0085, U+00A0, U+1680, U+2000 to U+200A, U+2028, U+2029, U+202F, U+205F and U+3000.
  A byte that starts no such sequence decodes to a rune that is not a space (an invalid
  byte decodes to U+FFFD), and there trimming stops.
\<close>

definition spaceRunes :: "string list" where
  "spaceRunes =
    [[CHR 0x09], [CHR 0x0A], [CHR 0x0B], [CHR 0x0C], [CHR 0x0D], [CHR 0x20],
     [CHR 0xC2, CHR 0x85], [CHR 0xC2, CHR 0xA0],
     [CHR 0xE1, CHR 0x9A, CHR 0x80],
     [CHR 0xE2, CHR 0x80, CHR 0x80], [CHR 0xE2, CHR 0x80, CHR 0x81],
     [CHR 0xE2, CHR 0x80, CHR 0x82], [CHR 0xE2, CHR 0x80, CHR 0x83],
     [CHR 0xE2, CHR 0x80, CHR 0x84], [CHR 0xE2, CHR 0x80, CHR 0x85],
     [CHR 0xE2, CHR 0x80, CHR 0x86], [CHR 0xE2, CHR 0x80, CHR 0x87],
     [CHR 0xE2, CHR 0x80, CHR 0x88], [CHR 0xE2, CHR 0x80, CHR 0x89],
     [CHR 0xE2, CHR 0x80, CHR 0x8A],
     [CHR 0xE2, CHR 0x80, CHR 0xA8], [CHR 0xE2, CHR 0x80, CHR 0xA9],
     [CHR 0xE2, CHR 0x80, CHR 0xAF],
     [CHR 0xE2, CHR 0x81, CHR 0x9F],
     [CHR 0xE3, CHR 0x80, CHR 0x80]]"

text \<open>The number of bytes of the space rune the string starts with (ends with); 0 if none.\<close>

definition leadingSpace :: "string \<Rightarrow> nat" where
  "leadingSpace s = (case find (\<lambda>e. prefix e s) spaceRunes of None \<Rightarrow> 0 | Some e \<Rightarrow> length e)"

definition trailingSpace :: "string \<Rightarrow> nat" where
  "trailingSpace s = (case find (\<lambda>e. suffix e s) spaceRunes of None \<Rightarrow> 0 | Some e \<Rightarrow> length e)"

function TrimLeft :: "string \<Rightarrow> string" where
  "TrimLeft s = (if leadingSpace s = 0 then s else TrimLeft (drop (leadingSpace s) s))"
  by pat_completeness auto
termination
proof (relation "measure length")
  fix s :: string
  assume "leadingSpace s \<noteq> 0"
  moreover have "leadingSpace s \<le> length s"
    by (auto simp: leadingSpace_def find_Some_iff prefix_length_le split: option.splits)
  ultimately show "(drop (leadingSpace s) s, s) \<in> measure length"
    by (cases s) auto
qed simp

function TrimRight :: "string \<Rightarrow> string" where
  "TrimRight s = (if trailingSpace s = 0 then s else TrimRight (take (length s - trailingSpace s) s))"
  by pat_completeness auto
termination
proof (relation "measure length")
  fix s :: string
  assume "trailingSpace s \<noteq> 0"
  moreover have "trailingSpace s \<le> length s"
    by (auto simp: trailingSpace_def find_Some_iff suffix_length_le split: option.splits)
  ultimately show "(take (length s - trailingSpace s) s, s) \<in> measure length"
    by (cases s) auto
qed simp

declare TrimLeft.simps [simp del] TrimRight.simps [simp del]

definition TrimSpace :: "string \<Rightarrow> string" where
  "TrimSpace s = TrimRight (TrimLeft s)"

text \<open>\<open>strings.Contains s sub\<close>: \<open>sub\<close> occurs in \<open>s\<close> as a contiguous run of bytes.\<close>

primrec Contains :: "string \<Rightarrow> string \<Rightarrow> bool" where
  "Contains [] sub = (sub = [])"
| "Contains (c # cs) sub = (prefix sub (c # cs) \<or> Contains cs sub)"

section \<open>The search request (server/internal/api/search.go)\<close>

text \<open>
  The request DTO. \<open>TopKE\<close> and \<open>TopKC\<close> are \<open>*int\<close>: nil when the JSON body does
  not carry the field.
\<close>

record SearchRequest =
  MemoryID :: string
  Query :: string
  TopKE :: "int option"
  TopKC :: "int option"
  IncludeRawEntries :: bool

text \<open>
  \<open>Validate\<close> mutates the receiver and returns an error. The model returns the error
  together with the receiver as the call leaves it: the query is trimmed first, the
  defaults are stored only once both required fields have passed. Go's \<open>int\<close> has 64
  bits; it is only compared with constants here, so it is an \<open>int\<close>.
\<close>

definition Validate :: "SearchRequest \<Rightarrow> error option \<times> SearchRequest" where
  "Validate r =
    (let r1 = r\<lparr>Query := TrimSpace (Query r)\<rparr> in
     if MemoryID r1 = [] then (Some ''memoryId is required'', r1)
     else if Query r1 = [] then (Some ''query cannot be empty'', r1)
     else
       let ke = (case TopKE r1 of None \<Rightarrow> 5 | Some k \<Rightarrow> k);
           kc = (case TopKC r1 of None \<Rightarrow> 2 | Some k \<Rightarrow> k);
           r2 = r1\<lparr>TopKE := Some ke, TopKC := Some kc\<rparr>
       in if ke < 0 \<or> ke > 25 then (Some ''top_ke must be between 0 and 25'', r2)
          else if kc < 1 \<or> kc > 10 then (Some ''top_kc must be between 1 and 10'', r2)
          else (None, r2))"

section \<open>The collaborators: embeddings, search index, authorizer\<close>

text \<open>
  The handler and the worker only pass vectors, scores, the weight \<open>alpha\<close> and
  timestamps on. The model is therefore parametric in the type \<open>'f\<close> of a
  \<open>float32\<close> and in the type \<open>'t\<close> of a \<open>time.Time\<close>.
\<close>

record ActorInfo =
  ActorID :: string
  ProjectID :: string
  OrgID :: string
  KeyType :: string
  KeyName :: string
  Permissions :: "string list"

record ('f, 't) SearchHit =
  EntryID :: string
  Summary :: string
  Score :: 'f
  CreationTime :: 't

record ('f, 't) ContextHit =
  Context :: string
  Timestamp :: 't
  CtxScore :: 'f

type_synonym payload = "string \<rightharpoonup> any"

text \<open>
  The interface \<open>searchindex.Index\<close>, with the method set and the parameter order of the
  mocks that implement it (the context argument is left out). Each method is called at
  most once per request or job, so a method is a function of its arguments.
\<close>

record ('f, 't) Index =
  Search :: "string \<Rightarrow> string \<Rightarrow> string \<Rightarrow> 'f list \<Rightarrow> int \<Rightarrow> 'f \<Rightarrow> bool
               \<Rightarrow> error + ('f, 't) SearchHit list"
  LatestContext :: "string \<Rightarrow> string \<Rightarrow> error + (string \<times> 't)"
  SearchContexts :: "string \<Rightarrow> string \<Rightarrow> string \<Rightarrow> 'f list \<Rightarrow> int \<Rightarrow> 'f
               \<Rightarrow> error + ('f, 't) ContextHit list"
  UpsertEntry :: "string \<Rightarrow> 'f list \<Rightarrow> payload \<Rightarrow> error option"
  UpsertContext :: "string \<Rightarrow> 'f list \<Rightarrow> payload \<Rightarrow> error option"
  DeleteEntry :: "string \<Rightarrow> string \<Rightarrow> error option"
  DeleteContext :: "string \<Rightarrow> string \<Rightarrow> error option"
  DeleteMemory :: "string \<Rightarrow> string \<Rightarrow> error option"
  DeleteVault :: "string \<Rightarrow> string \<Rightarrow> error option"

type_synonym 'f Embedder = "string \<Rightarrow> error + 'f list"

type_synonym Authorizer = "string \<Rightarrow> string \<Rightarrow> string \<Rightarrow> error + ActorInfo"

text \<open>
  What a run of the handler or of the worker did to its collaborators: the calls it made,
  in order, each with its arguments.
\<close>

datatype 'f Call =
    AuthorizeCall string string string
  | EmbedCall string
  | SearchCall string string string "'f list" int 'f bool
  | LatestContextCall string string
  | SearchContextsCall string string string "'f list" int 'f
  | UpsertEntryCall string "'f list" payload
  | UpsertContextCall string "'f list" payload
  | DeleteEntryCall string string
  | DeleteContextCall string string
  | DeleteMemoryCall string string
  | DeleteVaultCall string string

fun isAuthorizeCall :: "'f Call \<Rightarrow> bool" where
  "isAuthorizeCall (AuthorizeCall k opn res) = True"
| "isAuthorizeCall c = False"

fun isEmbedCall :: "'f Call \<Rightarrow> bool" where
  "isEmbedCall (EmbedCall txt) = True"
| "isEmbedCall c = False"

fun isSearchCall :: "'f Call \<Rightarrow> bool" where
  "isSearchCall (SearchCall a m q v k al raw) = True"
| "isSearchCall c = False"

fun isIndexCall :: "'f Call \<Rightarrow> bool" where
  "isIndexCall (AuthorizeCall k opn res) = False"
| "isIndexCall (EmbedCall txt) = False"
| "isIndexCall c = True"

section \<open>The search handler (server/internal/api/search.go)\<close>

record Request =
  Header :: "string \<rightharpoonup> string"
  Body :: string

text \<open>
  The functions the handler calls that are not code of the handler: \<open>auth.ExtractAPIKey\<close>,
  the JSON decoder of the standard library (its result on a body is an error or the struct
  it filled) and \<open>time.Time.Format(time.RFC3339)\<close>. They are parameters of the model.
\<close>

record 't Env =
  ExtractAPIKey :: "Request \<Rightarrow> error + string"
  jsonDecode :: "string \<Rightarrow> error + SearchRequest"
  FormatRFC3339 :: "'t \<Rightarrow> string"

record ('f, 't) SearchHandler =
  emb :: "'f Embedder option"
  idx :: "('f, 't) Index option"
  alpha :: 'f
  authorizer :: Authorizer

record 'f ContextOut =
  context' :: string
  timestamp :: string
  score :: 'f

record ('f, 't) SearchResponse =
  entries :: "('f, 't) SearchHit list"
  count :: int
  latestContext :: string
  latestContextTimestamp :: string
  contexts :: "'f ContextOut list"

text \<open>
  What the handler writes: one call of \<open>respond.WriteError\<close> (status, message),
  \<open>respond.WriteBadRequest\<close> (message) or \<open>respond.WriteJSON\<close> (status, body).
  \<open>Panic\<close> is the run that writes nothing because it dereferences a nil pointer.
\<close>

datatype ('f, 't) Response =
    WriteError nat string
  | WriteBadRequest string
  | WriteJSON nat "('f, 't) SearchResponse"
  | Panic

definition decodeSearchRequest :: "'t Env \<Rightarrow> Request \<Rightarrow> error + SearchRequest" where
  "decodeSearchRequest env r =
    (case jsonDecode env (Body r) of
       Inl err \<Rightarrow> Inl err
     | Inr req \<Rightarrow>
         (case Validate req of
            (Some err, req') \<Rightarrow> Inl err
          | (None, req') \<Rightarrow> Inr req'))"

definition buildContexts :: "'t Env \<Rightarrow> ('f, 't) ContextHit list \<Rightarrow> 'f ContextOut list" where
  "buildContexts env ctxHits =
     map (\<lambda>ch. \<lparr>context' = Context ch, timestamp = FormatRFC3339 env (Timestamp ch),
                 score = CtxScore ch\<rparr>) ctxHits"

text \<open>
  \<open>HandleSearch\<close>, statement by statement; the result is the response written and the
  calls made. Of the logging only the reads \<open>*req.TopKE\<close> and \<open>*req.TopKC\<close> of the
  first log line are kept: they come before the embedding and panic on a nil pointer.
  \<open>hits\<close> starts as the nil slice, the empty list.
\<close>

definition HandleSearch ::
  "'t Env \<Rightarrow> ('f, 't) SearchHandler \<Rightarrow> Request \<Rightarrow> ('f, 't) Response \<times> 'f Call list" where
  "HandleSearch env h r =
    (case ExtractAPIKey env r of
       Inl err \<Rightarrow> (WriteError 401 (''Unauthorized: '' @ err), [])
     | Inr apiKey \<Rightarrow>
    let t1 = [AuthorizeCall apiKey ''memory.search'' ''default''] in
    (case authorizer h apiKey ''memory.search'' ''default'' of
       Inl err \<Rightarrow> (WriteError 401 (''Unauthorized: '' @ err), t1)
     | Inr actorInfo \<Rightarrow>
    (case decodeSearchRequest env r of
       Inl err \<Rightarrow> (WriteBadRequest err, t1)
     | Inr req \<Rightarrow>
    (case (emb h, idx h) of
       (None, ix) \<Rightarrow> (WriteError 503 ''search not configured'', t1)
     | (Some embedFn, None) \<Rightarrow> (WriteError 503 ''search not configured'', t1)
     | (Some embedFn, Some index) \<Rightarrow>
    (case (TopKE req, TopKC req) of
       (None, kc) \<Rightarrow> (Panic, t1)
     | (Some topKE, None) \<Rightarrow> (Panic, t1)
     | (Some topKE, Some topKC) \<Rightarrow>
    let t2 = t1 @ [EmbedCall (Query req)] in
    (case embedFn (Query req) of
       Inl err \<Rightarrow> (WriteError 500 ''embedding service unavailable'', t2)
     | Inr vec \<Rightarrow>
    let searched =
          (if topKE > 0
           then Search index (ActorID actorInfo) (MemoryID req) (Query req) vec
                  topKE (alpha h) (IncludeRawEntries req)
           else Inr []);
        t3 = (if topKE > 0
              then t2 @ [SearchCall (ActorID actorInfo) (MemoryID req) (Query req) vec
                           topKE (alpha h) (IncludeRawEntries req)]
              else t2)
    in
    (case searched of
       Inl err \<Rightarrow> (WriteError 500 ''search service unavailable'', t3)
     | Inr hits \<Rightarrow>
    let t4 = t3 @ [LatestContextCall (ActorID actorInfo) (MemoryID req)] in
    (case LatestContext index (ActorID actorInfo) (MemoryID req) of
       Inl err \<Rightarrow> (WriteError 500 ''latest context unavailable'', t4)
     | Inr (latestCtx, latestTs) \<Rightarrow>
    let t5 = t4 @ [SearchContextsCall (ActorID actorInfo) (MemoryID req) (Query req) vec
                     topKC (alpha h)] in
    (case SearchContexts index (ActorID actorInfo) (MemoryID req) (Query req) vec
            topKC (alpha h) of
       Inl err \<Rightarrow> (WriteError 500 ''context search unavailable'', t5)
     | Inr ctxHits \<Rightarrow>
         (WriteJSON 200
            \<lparr>entries = hits,
             count = int (length hits),
             latestContext = latestCtx,
             latestContextTimestamp = FormatRFC3339 env latestTs,
             contexts = buildContexts env ctxHits\<rparr>, t5))))))))))"

section \<open>The MCP tool search_memories (mcp/internal/handlers/search_handler.go)\<close>

text \<open>
  \<open>v, _ := req.RequireString(key)\<close>: the argument if it is a string, else the empty
  string (the error is dropped).
\<close>

definition RequireString :: "(string \<rightharpoonup> any) \<Rightarrow> string \<Rightarrow> string" where
  "RequireString args key = (case args key of Some (AString s) \<Rightarrow> s | _ \<Rightarrow> [])"

text \<open>
  The conversion \<open>int(v)\<close> of a \<open>float64\<close> drops the fraction (rounds towards zero).
  Beyond the range of \<open>int\<close> Go leaves the result to the implementation; the model keeps
  the mathematical value, which is outside both permitted ranges as well.
\<close>

definition float64ToInt :: "rat \<Rightarrow> int" where
  "float64ToInt v = (if 0 \<le> v then \<lfloor>v\<rfloor> else \<lceil>v\<rceil>)"

text \<open>
  The tool result: \<open>mcp.NewToolResultError\<close> with its message, or
  \<open>mcp.NewToolResultText\<close> with the JSON text built from the five fields of the client's
  response \<open>'r\<close>, which the handler copies without looking at them.
\<close>

datatype 'r ToolResult = ToolResultError string | ToolResultText 'r

text \<open>
  \<open>handleSearch\<close> on the argument map of the tool call. Each top-k block yields the
  value to use (the default unless the argument asserts to \<open>float64\<close>) or returns its
  range error. The result comes with the requests passed to \<open>client.Search\<close> (none or
  one). \<open>client.SearchRequest\<close> has the fields of the server's request struct.
\<close>

definition handleSearch ::
  "(SearchRequest \<Rightarrow> error + 'r) \<Rightarrow> (string \<rightharpoonup> any) \<Rightarrow> 'r ToolResult \<times> SearchRequest list" where
  "handleSearch clientSearch args =
    (let memoryID = RequireString args ''memory_id'';
         query = RequireString args ''query''
     in
     (case (case args ''top_ke'' of
              Some (AFloat64 v) \<Rightarrow>
                if float64ToInt v < 0 \<or> float64ToInt v > 25
                then Inl ''top_ke must be between 0 and 25''
                else Inr (float64ToInt v)
            | _ \<Rightarrow> Inr 5) of
        Inl msg \<Rightarrow> (ToolResultError msg, [])
      | Inr topKE \<Rightarrow>
     (case (case args ''top_kc'' of
              Some (AFloat64 v) \<Rightarrow>
                if float64ToInt v < 1 \<or> float64ToInt v > 10
                then Inl ''top_kc must be between 1 and 10''
                else Inr (float64ToInt v)
            | _ \<Rightarrow> Inr 2) of
        Inl msg \<Rightarrow> (ToolResultError msg, [])
      | Inr topKC \<Rightarrow>
     let includeRawEntries =
           (case args ''include_raw_entries'' of Some (ABool v) \<Rightarrow> v | _ \<Rightarrow> False);
         creq = \<lparr>MemoryID = memoryID, Query = query, TopKE = Some topKE, TopKC = Some topKC,
                 IncludeRawEntries = includeRawEntries\<rparr>
     in (case clientSearch creq of
           Inl err \<Rightarrow> (ToolResultError (''search failed: '' @ err), [creq])
         | Inr resp \<Rightarrow> (ToolResultText resp, [creq])))))"

section \<open>The outbox worker (server/internal/outbox)\<close>

text \<open>
  The file worker.go (the job and worker structs, the operation constants,
  \<open>preferredText\<close>, \<open>isAlreadyExists\<close> and \<open>Worker.handle\<close>) is not among the sources;
  only its test file is. Every definition of this section is modelled from section 4.3 of
  the specification, with the names and signatures the test file uses.
\<close>

text \<open>
  Modelled from the spec: the operation constants of worker.go, with the six operation
  names of the dispatch table as their values.
\<close>

definition OpUpsertEntry :: string where "OpUpsertEntry = ''upsert_entry''"

text \<open>Modelled from the spec: the operation constant for \<open>upsert_context\<close>.\<close>

definition OpUpsertContext :: string where "OpUpsertContext = ''upsert_context''"

text \<open>Modelled from the spec: the operation constant for \<open>delete_entry\<close>.\<close>

definition OpDeleteEntry :: string where "OpDeleteEntry = ''delete_entry''"

text \<open>Modelled from the spec: the operation constant for \<open>delete_context\<close>.\<close>

definition OpDeleteContext :: string where "OpDeleteContext = ''delete_context''"

text \<open>Modelled from the spec: the operation constant for \<open>delete_memory\<close>.\<close>

definition OpDeleteMemory :: string where "OpDeleteMemory = ''delete_memory''"

text \<open>Modelled from the spec: the operation constant for \<open>delete_vault\<close>.\<close>

definition OpDeleteVault :: string where "OpDeleteVault = ''delete_vault''"

text \<open>Modelled from the spec: the recognized operations, the rows of the dispatch table.\<close>

definition recognizedOps :: "string list" where
  "recognizedOps =
     [OpUpsertEntry, OpUpsertContext, OpDeleteEntry, OpDeleteContext, OpDeleteMemory, OpDeleteVault]"

text \<open>
  Modelled from the spec: the job struct of worker.go, with the fields the test file sets
  (\<open>id\<close> is \<open>jobId\<close> here). The attempts of a job are an argument of \<open>settle\<close> below.
\<close>

record job =
  jobId :: int
  op :: string
  aggregateID :: string
  payload :: payload

text \<open>
  Modelled from the spec: the configuration, \<open>BatchSize\<close> and \<open>Interval\<close> as the test
  file sets them and \<open>MaxAttempts\<close> from the configuration list of the specification.
\<close>

record Config =
  BatchSize :: int
  Interval :: int
  MaxAttempts :: nat

text \<open>
  Modelled from the spec: the worker struct of worker.go, with the collaborators the test
  file sets; the database handle and the logger play no part in \<open>handle\<close>.
\<close>

record ('f, 't) Worker =
  embedder :: "'f Embedder"
  index :: "('f, 't) Index"
  cfg :: Config

text \<open>
  Modelled from the spec: the text-selection rule. \<open>preferredText\<close> returns the first
  value, in the order of the keys, that exists, is a string and is non-empty after
  trimming; the empty string if no key yields one.
\<close>

fun preferredText :: "payload \<Rightarrow> string list \<Rightarrow> string" where
  "preferredText p [] = []"
| "preferredText p (k # ks) =
     (case p k of
        Some (AString s) \<Rightarrow> if TrimSpace s \<noteq> [] then s else preferredText p ks
      | _ \<Rightarrow> preferredText p ks)"

text \<open>
  Modelled from the spec: the conflict rule. An index error whose message contains
  \<open>already exists\<close> or \<open>status code: 422\<close>, compared byte by byte; nil is no conflict.
\<close>

definition isAlreadyExists :: "error option \<Rightarrow> bool" where
  "isAlreadyExists err =
     (case err of
        None \<Rightarrow> False
      | Some msg \<Rightarrow> Contains msg ''already exists'' \<or> Contains msg ''status code: 422'')"

text \<open>
  Modelled from the spec: what the worker returns for the answer of the index. A conflict
  is success, every other error is returned.
\<close>

definition indexOutcome :: "error option \<Rightarrow> error option" where
  "indexOutcome err = (if isAlreadyExists err then None else err)"

text \<open>
  Modelled from the spec: the deletes take \<open>(actorId, id)\<close>. The specification does not
  say where the worker reads the actor; the model reads the payload field \<open>actorId\<close>,
  which the index payload must carry.
\<close>

definition actorOf :: "payload \<Rightarrow> string" where
  "actorOf p = (case p ''actorId'' of Some (AString s) \<Rightarrow> s | _ \<Rightarrow> [])"

text \<open>
  Modelled from the spec: the embed-then-upsert order of the mutating operations. With no
  preferred text the job is a no-op success; an embedding error is returned; otherwise the
  index receives the id, the vector and the payload of the job as it is.
\<close>

definition upsertWith ::
  "('f, 't) Worker \<Rightarrow> (string \<Rightarrow> 'f list \<Rightarrow> payload \<Rightarrow> error option)
     \<Rightarrow> (string \<Rightarrow> 'f list \<Rightarrow> payload \<Rightarrow> 'f Call) \<Rightarrow> job \<Rightarrow> string
     \<Rightarrow> error option \<times> 'f Call list" where
  "upsertWith w upsertFn callOf j txt =
     (if txt = [] then (None, [])
      else (case embedder w txt of
              Inl err \<Rightarrow> (Some err, [EmbedCall txt])
            | Inr vec \<Rightarrow>
                (indexOutcome (upsertFn (aggregateID j) vec (payload j)),
                 [EmbedCall txt, callOf (aggregateID j) vec (payload j)])))"

text \<open>
  Modelled from the spec: the dispatch table of \<open>Worker.handle\<close>. The result is the error
  returned (nil is success) and the calls made to the embedder and the index.
\<close>

definition handle :: "('f, 't) Worker \<Rightarrow> job \<Rightarrow> error option \<times> 'f Call list" where
  "handle w j =
    (if op j = OpUpsertEntry then
       upsertWith w (UpsertEntry (index w)) UpsertEntryCall j
         (preferredText (payload j) [''summary'', ''rawEntry''])
     else if op j = OpUpsertContext then
       upsertWith w (UpsertContext (index w)) UpsertContextCall j
         (preferredText (payload j) [''context''])
     else if op j = OpDeleteEntry then
       (indexOutcome (DeleteEntry (index w) (actorOf (payload j)) (aggregateID j)),
        [DeleteEntryCall (actorOf (payload j)) (aggregateID j)])
     else if op j = OpDeleteContext then
       (indexOutcome (DeleteContext (index w) (actorOf (payload j)) (aggregateID j)),
        [DeleteContextCall (actorOf (payload j)) (aggregateID j)])
     else if op j = OpDeleteMemory then
       (indexOutcome (DeleteMemory (index w) (actorOf (payload j)) (aggregateID j)),
        [DeleteMemoryCall (actorOf (payload j)) (aggregateID j)])
     else if op j = OpDeleteVault then
       (indexOutcome (DeleteVault (index w) (actorOf (payload j)) (aggregateID j)),
        [DeleteVaultCall (actorOf (payload j)) (aggregateID j)])
     else (Some (''unknown op '' @ op j), []))"

text \<open>
  Modelled from the spec: the states a processed job moves to. Success marks it done; an
  error increments the attempts and leaves it to be retried, or marks it dead once the
  attempts have reached \<open>MaxAttempts\<close>.
\<close>

datatype JobState = Done | Retry | Dead

definition settle :: "Config \<Rightarrow> nat \<Rightarrow> error option \<Rightarrow> JobState" where
  "settle c attempts res =
     (case res of
        None \<Rightarrow> Done
      | Some err \<Rightarrow> if MaxAttempts c \<le> attempts + 1 then Dead else Retry)"

text \<open>The answer of the index to a call the worker made to it.\<close>

fun indexReply :: "('f, 't) Index \<Rightarrow> 'f Call \<Rightarrow> error option" where
  "indexReply ix (UpsertEntryCall i v p) = UpsertEntry ix i v p"
| "indexReply ix (UpsertContextCall i v p) = UpsertContext ix i v p"
| "indexReply ix (DeleteEntryCall a i) = DeleteEntry ix a i"
| "indexReply ix (DeleteContextCall a i) = DeleteContext ix a i"
| "indexReply ix (DeleteMemoryCall a i) = DeleteMemory ix a i"
| "indexReply ix (DeleteVaultCall a i) = DeleteVault ix a i"
| "indexReply ix c = None"

text \<open>The vector a search call carries.\<close>

fun callVector :: "'f Call \<Rightarrow> 'f list option" where
  "callVector (SearchCall a m q v k al raw) = Some v"
| "callVector (SearchContextsCall a m q v k al) = Some v"
| "callVector c = None"

text \<open>The actor and the memory an index read is scoped to.\<close>

fun callActor :: "'f Call \<Rightarrow> string option" where
  "callActor (SearchCall a m q v k al raw) = Some a"
| "callActor (LatestContextCall a m) = Some a"
| "callActor (SearchContextsCall a m q v k al) = Some a"
| "callActor c = None"

fun callMemory :: "'f Call \<Rightarrow> string option" where
  "callMemory (SearchCall a m q v k al raw) = Some m"
| "callMemory (LatestContextCall a m) = Some m"
| "callMemory (SearchContextsCall a m q v k al) = Some m"
| "callMemory c = None"

section \<open>Test doubles\<close>

text \<open>
  The mocks of the test files, for running the definitions on concrete inputs: an
  embedder that returns a fixed vector, an index that answers every search with one hit
  and as many context hits as asked for, an authorizer that accepts every key and one that
  rejects every key. Here a \<open>float32\<close> is a rational and a time is the text it prints as.
\<close>

definition mockEmbedder :: "rat Embedder" where
  "mockEmbedder txt = Inr [1, 2]"

definition mockSearch :: "(rat, string) Index" where
  "mockSearch =
     \<lparr>Search = (\<lambda>a m q v k al raw.
         Inr [\<lparr>EntryID = ''e1'', Summary = ''s'', Score = 9 / 10,
               CreationTime = ''2025-07-27T00:00:00Z''\<rparr>]),
      LatestContext = (\<lambda>a m. Inr (''ctx'', ''2025-07-27T01:00:00Z'')),
      SearchContexts = (\<lambda>a m q v k al.
         Inr (replicate (nat k)
                \<lparr>Context = ''ctx'', Timestamp = ''2025-07-27T01:00:00Z'', CtxScore = 8 / 10\<rparr>)),
      UpsertEntry = (\<lambda>i v p. None),
      UpsertContext = (\<lambda>i v p. None),
      DeleteEntry = (\<lambda>a i. None),
      DeleteContext = (\<lambda>a i. None),
      DeleteMemory = (\<lambda>a i. None),
      DeleteVault = (\<lambda>a i. None)\<rparr>"

definition mockAuthorizer :: Authorizer where
  "mockAuthorizer apiKey operation resource =
     Inr \<lparr>ActorID = ''test-user'', ProjectID = ''test-project'', OrgID = ''test-org'',
          KeyType = ''admin'', KeyName = ''Test Key'', Permissions = [''*'']\<rparr>"

definition denyAuthorizer :: Authorizer where
  "denyAuthorizer apiKey operation resource = Inl ''invalid API key''"

text \<open>
  An environment whose decoder fills the given struct, whose key is the bearer token of
  the Authorization header, and whose times print as they are.
\<close>

definition testEnv :: "SearchRequest \<Rightarrow> string Env" where
  "testEnv decoded =
     \<lparr>ExtractAPIKey = (\<lambda>r. case Header r ''Authorization'' of
                               None \<Rightarrow> Inl ''missing authorization header''
                             | Some v \<Rightarrow> if prefix ''Bearer '' v then Inr (drop 7 v)
                                        else Inl ''invalid authorization header''),
      jsonDecode = (\<lambda>b. Inr decoded),
      FormatRFC3339 = (\<lambda>t. t)\<rparr>"

definition testRequest :: Request where
  "testRequest = \<lparr>Header = [''Authorization'' \<mapsto> ''Bearer test-api-key''], Body = ''{...}''\<rparr>"

definition testHandler :: "(rat, string) SearchHandler" where
  "testHandler =
     \<lparr>emb = Some mockEmbedder, idx = Some mockSearch, alpha = 6 / 10,
      authorizer = mockAuthorizer\<rparr>"

definition denyingHandler :: "(rat, string) SearchHandler" where
  "denyingHandler = testHandler\<lparr>authorizer := denyAuthorizer\<rparr>"

definition testWorker :: "(rat, string) Worker" where
  "testWorker =
     \<lparr>embedder = mockEmbedder, index = mockSearch,
      cfg = \<lparr>BatchSize = 10, Interval = 0, MaxAttempts = 3\<rparr>\<rparr>"

text \<open>A worker whose index answers every entry upsert with the given error.\<close>

definition failingWorker :: "error \<Rightarrow> (rat, string) Worker" where
  "failingWorker msg = testWorker\<lparr>index := mockSearch\<lparr>UpsertEntry := (\<lambda>i v p. Some msg)\<rparr>\<rparr>"

text \<open>Outbox jobs: those of the worker's tests and of the scenarios of the specification.\<close>

definition emptyTextJob :: job where
  "emptyTextJob =
     \<lparr>jobId = 1, op = OpUpsertEntry, aggregateID = ''test-entry-id'',
      payload = [''summary'' \<mapsto> AString [],
                 ''rawEntry'' \<mapsto> AString [CHR '' '', CHR '' '', CHR 0x09, CHR 0x0A, CHR '' '']]\<rparr>"

definition emptyContextJob :: job where
  "emptyContextJob =
     \<lparr>jobId = 16, op = OpUpsertContext, aggregateID = ''test-context-id'',
      payload = [''context'' \<mapsto> AString [CHR '' '', CHR 0x0A, CHR 0x09, CHR '' '']]\<rparr>"

definition bothPresentJob :: job where
  "bothPresentJob =
     \<lparr>jobId = 4, op = OpUpsertEntry, aggregateID = ''test-entry-id'',
      payload = [''summary'' \<mapsto> AString ''This is the summary'',
                 ''rawEntry'' \<mapsto> AString ''This is the raw entry'']\<rparr>"

definition duplicateJob :: job where
  "duplicateJob =
     \<lparr>jobId = 8, op = OpUpsertEntry, aggregateID = ''existing-entry-id'',
      payload = [''summary'' \<mapsto> AString ''Duplicate entry'']\<rparr>"

definition unknownOpJob :: job where
  "unknownOpJob =
     \<lparr>jobId = 14, op = ''invalid_operation'', aggregateID = ''test-id'', payload = Map.empty\<rparr>"

definition emptyOpJob :: job where
  "emptyOpJob = \<lparr>jobId = 15, op = [], aggregateID = ''test-id'', payload = Map.empty\<rparr>"

text \<open>A client that answers every search, and a tool call whose top-k arguments are not numbers.\<close>

definition stubClient :: "SearchRequest \<Rightarrow> error + string" where
  "stubClient creq = Inr ''ok''"

definition textualTopK :: "string \<rightharpoonup> any" where
  "textualTopK =
     [''memory_id'' \<mapsto> AString ''m1'', ''query'' \<mapsto> AString ''hello'',
      ''top_ke'' \<mapsto> AString ''26'', ''top_kc'' \<mapsto> AInt 0]"

text \<open>Request bodies, as decoded: the scenarios of the specification.\<close>

definition defaultsRequest :: SearchRequest where
  "defaultsRequest =
     \<lparr>MemoryID = ''m1'', Query = ''  hello  '', TopKE = None, TopKC = None,
      IncludeRawEntries = False\<rparr>"

definition contextOnlyRequest :: SearchRequest where
  "contextOnlyRequest =
     \<lparr>MemoryID = ''m1'', Query = ''hi'', TopKE = Some 0, TopKC = Some 1,
      IncludeRawEntries = False\<rparr>"

definition outOfRangeRequest :: SearchRequest where
  "outOfRangeRequest =
     \<lparr>MemoryID = ''m1'', Query = ''q'', TopKE = Some 26, TopKC = None,
      IncludeRawEntries = False\<rparr>"

definition blankMemoryRequest :: SearchRequest where
  "blankMemoryRequest =
     \<lparr>MemoryID = ''   '', Query = '' hi '', TopKE = Some 2, TopKC = Some 1,
      IncludeRawEntries = False\<rparr>"

definition noMemoryRequest :: SearchRequest where
  "noMemoryRequest =
     \<lparr>MemoryID = [], Query = ''hi'', TopKE = None, TopKC = None, IncludeRawEntries = False\<rparr>"

section \<open>Trimming and substrings\<close>

lemma leadingSpace_le: "leadingSpace s \<le> length s"
  by (auto simp: leadingSpace_def find_Some_iff prefix_length_le split: option.splits)

lemma trailingSpace_le: "trailingSpace s \<le> length s"
  by (auto simp: trailingSpace_def find_Some_iff suffix_length_le split: option.splits)

lemma leadingSpace_Nil [simp]: "leadingSpace [] = 0"
  using leadingSpace_le [of "[]"] by simp

lemma trailingSpace_Nil [simp]: "trailingSpace [] = 0"
  using trailingSpace_le [of "[]"] by simp

lemma TrimSpace_Nil [simp]: "TrimSpace [] = []"
  by (simp add: TrimSpace_def TrimLeft.simps [of "[]"] TrimRight.simps [of "[]"])

lemma Contains_sublist: "Contains s sub \<longleftrightarrow> sublist sub s"
  by (induction s) (auto simp: sublist_Cons_right)

lemma Contains_prefix: "prefix sub s \<Longrightarrow> Contains s sub"
  by (cases s) auto

lemma TrimSpace_nonempty: "TrimSpace s \<noteq> [] \<Longrightarrow> s \<noteq> []"
  by auto

section \<open>Validation\<close>

lemma Validate_fails_iff:
  "fst (Validate r) \<noteq> None \<longleftrightarrow>
     MemoryID r = [] \<or> TrimSpace (Query r) = [] \<or>
     (\<exists>k. TopKE r = Some k \<and> (k < 0 \<or> 25 < k)) \<or>
     (\<exists>k. TopKC r = Some k \<and> (k < 1 \<or> 10 < k))"
  by (auto simp: Validate_def Let_def split: option.splits)

lemma Validate_result:
  "MemoryID r \<noteq> [] \<Longrightarrow> TrimSpace (Query r) \<noteq> [] \<Longrightarrow>
   snd (Validate r) =
     r\<lparr>Query := TrimSpace (Query r),
       TopKE := Some (case TopKE r of None \<Rightarrow> 5 | Some k \<Rightarrow> k),
       TopKC := Some (case TopKC r of None \<Rightarrow> 2 | Some k \<Rightarrow> k)\<rparr>"
  by (simp add: Validate_def Let_def)

lemma Validate_keeps_MemoryID: "MemoryID (snd (Validate r)) = MemoryID r"
  by (simp add: Validate_def Let_def)

lemma Validate_trims_Query: "Query (snd (Validate r)) = TrimSpace (Query r)"
  by (simp add: Validate_def Let_def)

lemma decode_invalid:
  "jsonDecode env (Body rq) = Inr r \<Longrightarrow> fst (Validate r) = Some err \<Longrightarrow>
   decodeSearchRequest env rq = Inl err"
  by (cases "Validate r") (simp add: decodeSearchRequest_def)

lemma decode_valid:
  "jsonDecode env (Body rq) = Inr r \<Longrightarrow> fst (Validate r) = None \<Longrightarrow>
   decodeSearchRequest env rq = Inr (snd (Validate r))"
  by (cases "Validate r") (simp add: decodeSearchRequest_def)

lemma HandleSearch_no_key:
  "ExtractAPIKey env rq = Inl err \<Longrightarrow>
   HandleSearch env h rq = (WriteError 401 (''Unauthorized: '' @ err), [])"
  by (simp add: HandleSearch_def)

lemma HandleSearch_denied:
  "ExtractAPIKey env rq = Inr k \<Longrightarrow> authorizer h k ''memory.search'' ''default'' = Inl err \<Longrightarrow>
   HandleSearch env h rq =
     (WriteError 401 (''Unauthorized: '' @ err), [AuthorizeCall k ''memory.search'' ''default''])"
  by (simp add: HandleSearch_def)

lemma HandleSearch_bad_request:
  "ExtractAPIKey env rq = Inr k \<Longrightarrow> authorizer h k ''memory.search'' ''default'' = Inr a \<Longrightarrow>
   decodeSearchRequest env rq = Inl err \<Longrightarrow>
   HandleSearch env h rq = (WriteBadRequest err, [AuthorizeCall k ''memory.search'' ''default''])"
  by (simp add: HandleSearch_def)

section \<open>Runs of the search handler\<close>

lemma decode_sets_top_k:
  assumes "decodeSearchRequest env rq = Inr req"
  shows "\<exists>ke kc. TopKE req = Some ke \<and> TopKC req = Some kc"
  using assms
  by (auto simp: decodeSearchRequest_def Validate_def Let_def
           split: sum.splits prod.splits option.splits if_splits)

lemma HandleSearch_ok_entries:
  assumes "ExtractAPIKey env rq = Inr k"
    and "authorizer h k ''memory.search'' ''default'' = Inr a"
    and "decodeSearchRequest env rq = Inr req"
    and "emb h = Some e" and "idx h = Some ix"
    and "TopKE req = Some ke" and "TopKC req = Some kc"
    and "e (Query req) = Inr vec"
    and "0 < ke"
    and "Search ix (ActorID a) (MemoryID req) (Query req) vec ke (alpha h)
           (IncludeRawEntries req) = Inr hits"
    and "LatestContext ix (ActorID a) (MemoryID req) = Inr (lc, ts)"
    and "SearchContexts ix (ActorID a) (MemoryID req) (Query req) vec kc (alpha h) = Inr chs"
  shows "HandleSearch env h rq =
     (WriteJSON 200
        \<lparr>entries = hits, count = int (length hits), latestContext = lc,
         latestContextTimestamp = FormatRFC3339 env ts, contexts = buildContexts env chs\<rparr>,
      [AuthorizeCall k ''memory.search'' ''default'',
       EmbedCall (Query req),
       SearchCall (ActorID a) (MemoryID req) (Query req) vec ke (alpha h)
         (IncludeRawEntries req),
       LatestContextCall (ActorID a) (MemoryID req),
       SearchContextsCall (ActorID a) (MemoryID req) (Query req) vec kc (alpha h)])"
  using assms by (simp add: HandleSearch_def Let_def)

lemma HandleSearch_ok_context_only:
  assumes "ExtractAPIKey env rq = Inr k"
    and "authorizer h k ''memory.search'' ''default'' = Inr a"
    and "decodeSearchRequest env rq = Inr req"
    and "emb h = Some e" and "idx h = Some ix"
    and "TopKE req = Some ke" and "TopKC req = Some kc"
    and "e (Query req) = Inr vec"
    and "\<not> 0 < ke"
    and "LatestContext ix (ActorID a) (MemoryID req) = Inr (lc, ts)"
    and "SearchContexts ix (ActorID a) (MemoryID req) (Query req) vec kc (alpha h) = Inr chs"
  shows "HandleSearch env h rq =
     (WriteJSON 200
        \<lparr>entries = [], count = 0, latestContext = lc,
         latestContextTimestamp = FormatRFC3339 env ts, contexts = buildContexts env chs\<rparr>,
      [AuthorizeCall k ''memory.search'' ''default'',
       EmbedCall (Query req),
       LatestContextCall (ActorID a) (MemoryID req),
       SearchContextsCall (ActorID a) (MemoryID req) (Query req) vec kc (alpha h)])"
  using assms by (simp add: HandleSearch_def Let_def)

lemma HandleSearch_no_entry_search:
  assumes "jsonDecode env (Body rq) = Inr r" and "TopKE r = Some 0"
  shows "\<not> list_ex isSearchCall (snd (HandleSearch env h rq))"
proof -
  have "\<And>req. decodeSearchRequest env rq = Inr req \<Longrightarrow> TopKE req = Some 0"
    using assms
    by (auto simp: decodeSearchRequest_def Validate_def Let_def
             split: if_splits prod.splits option.splits)
  then show ?thesis
    by (auto simp: HandleSearch_def Let_def split: sum.splits option.splits prod.splits)
qed

lemma HandleSearch_embeds_once:
  assumes "ExtractAPIKey env rq = Inr k"
    and "authorizer h k ''memory.search'' ''default'' = Inr a"
    and "decodeSearchRequest env rq = Inr req"
    and "emb h = Some e" and "idx h = Some ix"
  shows "length (filter isEmbedCall (snd (HandleSearch env h rq))) = 1"
  using assms decode_sets_top_k [OF assms(3)]
  by (auto simp: HandleSearch_def Let_def split: sum.splits option.splits prod.splits)

lemma HandleSearch_same_vector:
  assumes "ExtractAPIKey env rq = Inr k"
    and "authorizer h k ''memory.search'' ''default'' = Inr a"
    and "decodeSearchRequest env rq = Inr req"
    and "emb h = Some e" and "idx h = Some ix"
    and "c \<in> set (snd (HandleSearch env h rq))" and "callVector c = Some v"
  shows "e (Query req) = Inr v"
  using assms
  by (auto simp: HandleSearch_def Let_def split: sum.splits option.splits prod.splits if_splits)

lemma HandleSearch_invalid_no_downstream:
  assumes "decodeSearchRequest env rq = Inl err"
  shows "\<forall>c\<in>set (snd (HandleSearch env h rq)). isAuthorizeCall c"
  using assms
  by (auto simp: HandleSearch_def Let_def split: sum.splits option.splits prod.splits)

lemma HandleSearch_invalid_response:
  assumes "decodeSearchRequest env rq = Inl err"
  shows "fst (HandleSearch env h rq) = WriteBadRequest err
       \<or> (\<exists>m. fst (HandleSearch env h rq) = WriteError 401 m)"
  using assms
  by (auto simp: HandleSearch_def Let_def split: sum.splits option.splits prod.splits)

lemma HandleSearch_call_actor:
  assumes "ExtractAPIKey env rq = Inr k"
    and "authorizer h k ''memory.search'' ''default'' = Inr a"
    and "c \<in> set (snd (HandleSearch env h rq))" and "callActor c = Some x"
  shows "x = ActorID a"
  using assms
  by (auto simp: HandleSearch_def Let_def split: sum.splits option.splits prod.splits if_splits)

lemma HandleSearch_call_memory:
  assumes "decodeSearchRequest env rq = Inr req"
    and "c \<in> set (snd (HandleSearch env h rq))" and "callMemory c = Some m"
  shows "m = MemoryID req"
  using assms
  by (auto simp: HandleSearch_def Let_def split: sum.splits option.splits prod.splits if_splits)

lemma Validate_ok_top_k:
  assumes "fst (Validate r) = None"
  shows "TopKE (snd (Validate r)) = Some (case TopKE r of None \<Rightarrow> 5 | Some k \<Rightarrow> k)"
    and "TopKC (snd (Validate r)) = Some (case TopKC r of None \<Rightarrow> 2 | Some k \<Rightarrow> k)"
    and "IncludeRawEntries (snd (Validate r)) = IncludeRawEntries r"
  using assms by (auto simp: Validate_def Let_def split: if_splits)

section \<open>Runs of the MCP tool\<close>

lemma number_case_other:
  "\<forall>v. x \<noteq> Some (AFloat64 v) \<Longrightarrow>
   (case x of Some (AFloat64 v) \<Rightarrow> f v | _ \<Rightarrow> d) = d"
  by (cases x) (auto split: any.splits)

lemma handleSearch_top_ke_ignored:
  assumes "\<forall>v. args ''top_ke'' \<noteq> Some (AFloat64 v)"
  shows "handleSearch cs args = handleSearch cs (args(''top_ke'' := None))"
  using assms
  by (simp add: handleSearch_def RequireString_def Let_def number_case_other cong: sum.case_cong)

lemma handleSearch_top_kc_ignored:
  assumes "\<forall>v. args ''top_kc'' \<noteq> Some (AFloat64 v)"
  shows "handleSearch cs args = handleSearch cs (args(''top_kc'' := None))"
  using assms
  by (simp add: handleSearch_def RequireString_def Let_def number_case_other cong: sum.case_cong)

lemma handleSearch_defaults:
  assumes "\<forall>v. args ''top_ke'' \<noteq> Some (AFloat64 v)"
    and "\<forall>v. args ''top_kc'' \<noteq> Some (AFloat64 v)"
  shows "handleSearch cs args =
     (let creq = \<lparr>MemoryID = RequireString args ''memory_id'',
                  Query = RequireString args ''query'',
                  TopKE = Some 5, TopKC = Some 2,
                  IncludeRawEntries =
                    (case args ''include_raw_entries'' of Some (ABool v) \<Rightarrow> v | _ \<Rightarrow> False)\<rparr>
      in (case cs creq of
            Inl err \<Rightarrow> (ToolResultError (''search failed: '' @ err), [creq])
          | Inr resp \<Rightarrow> (ToolResultText resp, [creq])))"
  using assms by (simp add: handleSearch_def Let_def number_case_other)

lemma handleSearch_top_ke_checked:
  assumes "args ''top_ke'' = Some (AFloat64 v)"
    and "float64ToInt v < 0 \<or> 25 < float64ToInt v"
  shows "handleSearch cs args = (ToolResultError ''top_ke must be between 0 and 25'', [])"
  using assms by (simp add: handleSearch_def Let_def)

lemma handleSearch_top_kc_checked:
  assumes "\<forall>v. args ''top_ke'' \<noteq> Some (AFloat64 v)"
    and "args ''top_kc'' = Some (AFloat64 v)"
    and "float64ToInt v < 1 \<or> 10 < float64ToInt v"
  shows "handleSearch cs args = (ToolResultError ''top_kc must be between 1 and 10'', [])"
  using assms by (simp add: handleSearch_def Let_def number_case_other)

section \<open>Runs of the outbox worker\<close>

lemma preferredText_none:
  "\<forall>k\<in>set ks. \<forall>s. p k = Some (AString s) \<longrightarrow> TrimSpace s = [] \<Longrightarrow> preferredText p ks = []"
  by (induction ks) (auto split: option.splits any.splits)

lemma preferredText_first:
  "p k = Some (AString s) \<Longrightarrow> TrimSpace s \<noteq> [] \<Longrightarrow> preferredText p (k # ks) = s"
  by simp

lemma ops_distinct:
  "OpUpsertContext \<noteq> OpUpsertEntry"
  by (simp add: OpUpsertContext_def OpUpsertEntry_def)

lemma indexOutcome_Some:
  "indexOutcome (Some e) =
     (if Contains e ''already exists'' \<or> Contains e ''status code: 422'' then None else Some e)"
  by (simp add: indexOutcome_def isAlreadyExists_def)

lemma upsertWith_index_error:
  assumes "snd (upsertWith w f mk j txt) \<noteq> []"
    and "isIndexCall (last (snd (upsertWith w f mk j txt)))"
    and "indexReply (index w) (last (snd (upsertWith w f mk j txt))) = Some e"
    and "\<And>i v p. indexReply (index w) (mk i v p) = f i v p"
  shows "fst (upsertWith w f mk j txt) = indexOutcome (Some e)"
proof (cases "txt = []")
  case True
  with assms(1) show ?thesis by (simp add: upsertWith_def)
next
  case False
  show ?thesis
  proof (cases "embedder w txt")
    case (Inl err)
    with False assms(2) show ?thesis by (simp add: upsertWith_def)
  next
    case (Inr vec)
    with False assms(3,4) show ?thesis by (simp add: upsertWith_def)
  qed
qed

lemma handle_index_outcome:
  assumes "snd (handle w j) \<noteq> []"
    and "isIndexCall (last (snd (handle w j)))"
    and "indexReply (index w) (last (snd (handle w j))) = Some e"
  shows "fst (handle w j) = indexOutcome (Some e)"
proof -
  consider (ue) "op j = OpUpsertEntry"
    | (uc) "op j \<noteq> OpUpsertEntry" "op j = OpUpsertContext"
    | (de) "op j \<noteq> OpUpsertEntry" "op j \<noteq> OpUpsertContext" "op j = OpDeleteEntry"
    | (dc) "op j \<noteq> OpUpsertEntry" "op j \<noteq> OpUpsertContext" "op j \<noteq> OpDeleteEntry"
           "op j = OpDeleteContext"
    | (dm) "op j \<noteq> OpUpsertEntry" "op j \<noteq> OpUpsertContext" "op j \<noteq> OpDeleteEntry"
           "op j \<noteq> OpDeleteContext" "op j = OpDeleteMemory"
    | (dv) "op j \<noteq> OpUpsertEntry" "op j \<noteq> OpUpsertContext" "op j \<noteq> OpDeleteEntry"
           "op j \<noteq> OpDeleteContext" "op j \<noteq> OpDeleteMemory" "op j = OpDeleteVault"
    | (other) "op j \<noteq> OpUpsertEntry" "op j \<noteq> OpUpsertContext" "op j \<noteq> OpDeleteEntry"
           "op j \<noteq> OpDeleteContext" "op j \<noteq> OpDeleteMemory" "op j \<noteq> OpDeleteVault"
    by blast
  then show ?thesis
  proof cases
    case ue
    then have h: "handle w j = upsertWith w (UpsertEntry (index w)) UpsertEntryCall j
         (preferredText (payload j) [''summary'', ''rawEntry''])"
      by (simp add: handle_def)
    show ?thesis
      using assms unfolding h by (rule upsertWith_index_error) simp
  next
    case uc
    then have h: "handle w j = upsertWith w (UpsertContext (index w)) UpsertContextCall j
         (preferredText (payload j) [''context''])"
      by (simp add: handle_def)
    show ?thesis
      using assms unfolding h by (rule upsertWith_index_error) simp
  next
    case de
    with assms(3) show ?thesis by (simp add: handle_def)
  next
    case dc
    with assms(3) show ?thesis by (simp add: handle_def)
  next
    case dm
    with assms(3) show ?thesis by (simp add: handle_def)
  next
    case dv
    with assms(3) show ?thesis by (simp add: handle_def)
  next
    case other
    with assms(1) show ?thesis by (simp add: handle_def)
  qed
qed

lemma handle_summary_preferred:
  assumes "op j = OpUpsertEntry"
    and "payload j ''summary'' = Some (AString s)" and "TrimSpace s \<noteq> []"
  shows "snd (handle w j) =
     (case embedder w s of
        Inl err \<Rightarrow> [EmbedCall s]
      | Inr vec \<Rightarrow> [EmbedCall s, UpsertEntryCall (aggregateID j) vec (payload j)])"
proof -
  have "preferredText (payload j) [''summary'', ''rawEntry''] = s"
    using assms(2,3) by (rule preferredText_first)
  moreover have "s \<noteq> []"
    using assms(3) by (rule TrimSpace_nonempty)
  ultimately show ?thesis
    using assms(1) by (simp add: handle_def upsertWith_def split: sum.splits)
qed

section \<open>Evaluation of the test doubles\<close>

lemma TrimSpace_fixtures:
  "TrimSpace ''  hello  '' = ''hello''" "TrimSpace ''hi'' = ''hi''" "TrimSpace ''q'' = ''q''"
  "TrimSpace '' hi '' = ''hi''" "TrimSpace ''   '' = []"
  by code_simp+

lemma testEnv_key: "ExtractAPIKey (testEnv d) testRequest = Inr ''test-api-key''"
  by (simp add: testEnv_def testRequest_def)

lemma TrimSpace_job_texts:
  "TrimSpace [CHR '' '', CHR '' '', CHR 0x09, CHR 0x0A, CHR '' ''] = []"
  "TrimSpace [CHR '' '', CHR 0x0A, CHR 0x09, CHR '' ''] = []"
  "TrimSpace ''This is the summary'' = ''This is the summary''"
  "TrimSpace ''This is the raw entry'' = ''This is the raw entry''"
  "TrimSpace ''Duplicate entry'' = ''Duplicate entry''"
  by code_simp+

section \<open>Claims about the search service\<close>

text \<open>
  C3. Validation of a search request returns an error exactly when memoryId is empty, the
  query is empty after trimming, a supplied top_ke is outside 0..25 or a supplied top_kc is
  outside 1..10. Once the two required fields have passed, an absent top_ke is stored as 5
  and an absent top_kc as 2. When the decoded body fails validation the handler calls
  neither the embedder nor the index (the only call it can have made is to the authorizer),
  and for an authorized caller the response is the bad-request error carrying the message.
\<close>

theorem SearchRequest_validation:
  "(fst (Validate r) \<noteq> None \<longleftrightarrow>
      MemoryID r = [] \<or> TrimSpace (Query r) = [] \<or>
      (\<exists>k. TopKE r = Some k \<and> (k < 0 \<or> 25 < k)) \<or>
      (\<exists>k. TopKC r = Some k \<and> (k < 1 \<or> 10 < k)))
   \<and> (MemoryID r \<noteq> [] \<and> TrimSpace (Query r) \<noteq> [] \<longrightarrow>
        TopKE (snd (Validate r)) = Some (case TopKE r of None \<Rightarrow> 5 | Some k \<Rightarrow> k) \<and>
        TopKC (snd (Validate r)) = Some (case TopKC r of None \<Rightarrow> 2 | Some k \<Rightarrow> k))
   \<and> (\<forall>err. jsonDecode env (Body rq) = Inr r \<and> fst (Validate r) = Some err \<longrightarrow>
        list_all isAuthorizeCall (snd (HandleSearch env h rq)) \<and>
        (\<forall>k a. ExtractAPIKey env rq = Inr k \<and>
               authorizer h k ''memory.search'' ''default'' = Inr a \<longrightarrow>
               fst (HandleSearch env h rq) = WriteBadRequest err))"
proof (intro conjI allI impI)
  show "fst (Validate r) \<noteq> None \<longleftrightarrow>
      MemoryID r = [] \<or> TrimSpace (Query r) = [] \<or>
      (\<exists>k. TopKE r = Some k \<and> (k < 0 \<or> 25 < k)) \<or>
      (\<exists>k. TopKC r = Some k \<and> (k < 1 \<or> 10 < k))"
    by (rule Validate_fails_iff)
next
  assume "MemoryID r \<noteq> [] \<and> TrimSpace (Query r) \<noteq> []"
  then show "TopKE (snd (Validate r)) = Some (case TopKE r of None \<Rightarrow> 5 | Some k \<Rightarrow> k)"
    by (simp add: Validate_result)
next
  assume "MemoryID r \<noteq> [] \<and> TrimSpace (Query r) \<noteq> []"
  then show "TopKC (snd (Validate r)) = Some (case TopKC r of None \<Rightarrow> 2 | Some k \<Rightarrow> k)"
    by (simp add: Validate_result)
next
  fix err
  assume "jsonDecode env (Body rq) = Inr r \<and> fst (Validate r) = Some err"
  then have "decodeSearchRequest env rq = Inl err"
    by (simp add: decode_invalid)
  then show "list_all isAuthorizeCall (snd (HandleSearch env h rq))"
    using HandleSearch_invalid_no_downstream [of env rq err h] by (simp add: list_all_iff)
next
  fix err k a
  assume "jsonDecode env (Body rq) = Inr r \<and> fst (Validate r) = Some err"
    and "ExtractAPIKey env rq = Inr k \<and> authorizer h k ''memory.search'' ''default'' = Inr a"
  then show "fst (HandleSearch env h rq) = WriteBadRequest err"
    by (simp add: decode_invalid HandleSearch_bad_request)
qed

theorem SearchRequest_validation_witness:
  "fst (Validate outOfRangeRequest) = Some ''top_ke must be between 0 and 25''
   \<and> HandleSearch (testEnv outOfRangeRequest) testHandler testRequest =
       (WriteBadRequest ''top_ke must be between 0 and 25'',
        [AuthorizeCall ''test-api-key'' ''memory.search'' ''default''])
   \<and> fst (Validate defaultsRequest) = None
   \<and> Query (snd (Validate defaultsRequest)) = ''hello''
   \<and> TopKE (snd (Validate defaultsRequest)) = Some 5
   \<and> TopKC (snd (Validate defaultsRequest)) = Some 2"
  using SearchRequest_validation [of outOfRangeRequest "testEnv outOfRangeRequest" testRequest testHandler]
    SearchRequest_validation [of defaultsRequest "testEnv defaultsRequest" testRequest testHandler]
  by (simp add: Validate_def outOfRangeRequest_def defaultsRequest_def TrimSpace_fixtures
        HandleSearch_def decodeSearchRequest_def testEnv_def testRequest_def testHandler_def
        mockAuthorizer_def)

text \<open>
  C4, as the code has it. The handler first extracts the API key and calls the
  authorizer, answering 401 when either fails, and only then decodes, validates and
  defaults the body, answering with the bad-request error on a violation; the actor of
  every later index call is the one the authorizer returned.
\<close>

theorem HandleSearch_authorizes_before_validating:
  "(\<forall>err. ExtractAPIKey env rq = Inl err \<longrightarrow>
      HandleSearch env h rq = (WriteError 401 (''Unauthorized: '' @ err), []))
   \<and> (\<forall>k err. ExtractAPIKey env rq = Inr k \<and>
         authorizer h k ''memory.search'' ''default'' = Inl err \<longrightarrow>
      HandleSearch env h rq =
        (WriteError 401 (''Unauthorized: '' @ err),
         [AuthorizeCall k ''memory.search'' ''default'']))
   \<and> (\<forall>k a err. ExtractAPIKey env rq = Inr k \<and>
         authorizer h k ''memory.search'' ''default'' = Inr a \<and>
         decodeSearchRequest env rq = Inl err \<longrightarrow>
      HandleSearch env h rq =
        (WriteBadRequest err, [AuthorizeCall k ''memory.search'' ''default'']))
   \<and> (\<forall>k a. ExtractAPIKey env rq = Inr k \<and>
         authorizer h k ''memory.search'' ''default'' = Inr a \<longrightarrow>
      list_all (\<lambda>c. callActor c = None \<or> callActor c = Some (ActorID a))
        (snd (HandleSearch env h rq)))"
proof (intro conjI allI impI)
  fix err assume "ExtractAPIKey env rq = Inl err"
  then show "HandleSearch env h rq = (WriteError 401 (''Unauthorized: '' @ err), [])"
    by (rule HandleSearch_no_key)
next
  fix k err
  assume "ExtractAPIKey env rq = Inr k \<and> authorizer h k ''memory.search'' ''default'' = Inl err"
  then show "HandleSearch env h rq =
        (WriteError 401 (''Unauthorized: '' @ err),
         [AuthorizeCall k ''memory.search'' ''default''])"
    by (simp add: HandleSearch_denied)
next
  fix k a err
  assume "ExtractAPIKey env rq = Inr k \<and>
         authorizer h k ''memory.search'' ''default'' = Inr a \<and>
         decodeSearchRequest env rq = Inl err"
  then show "HandleSearch env h rq =
        (WriteBadRequest err, [AuthorizeCall k ''memory.search'' ''default''])"
    by (simp add: HandleSearch_bad_request)
next
  fix k a
  assume "ExtractAPIKey env rq = Inr k \<and> authorizer h k ''memory.search'' ''default'' = Inr a"
  then have key: "ExtractAPIKey env rq = Inr k"
    and auth: "authorizer h k ''memory.search'' ''default'' = Inr a" by simp_all
  have "callActor c = None \<or> callActor c = Some (ActorID a)"
    if "c \<in> set (snd (HandleSearch env h rq))" for c
    using HandleSearch_call_actor [OF key auth that] by (cases "callActor c") auto
  then show "list_all (\<lambda>c. callActor c = None \<or> callActor c = Some (ActorID a))
        (snd (HandleSearch env h rq))"
    by (simp add: list_all_iff)
qed

theorem HandleSearch_authorizes_before_validating_witness:
  "HandleSearch (testEnv noMemoryRequest) testHandler testRequest =
     (WriteBadRequest ''memoryId is required'',
      [AuthorizeCall ''test-api-key'' ''memory.search'' ''default''])"
  using HandleSearch_authorizes_before_validating
          [of "testEnv noMemoryRequest" testRequest testHandler]
  by (simp add: HandleSearch_def decodeSearchRequest_def Validate_def noMemoryRequest_def
        testHandler_def mockAuthorizer_def testEnv_def testRequest_def)

text \<open>
  C4, as stated (validation first, authorization only then), fails: on a body without
  memoryId and a key the authorizer rejects, the handler has called the authorizer and
  answers 401 Unauthorized, not the validation error.
\<close>

theorem HandleSearch_validates_first_counterexample:
  "fst (Validate noMemoryRequest) = Some ''memoryId is required''
   \<and> HandleSearch (testEnv noMemoryRequest) denyingHandler testRequest =
       (WriteError 401 ''Unauthorized: invalid API key'',
        [AuthorizeCall ''test-api-key'' ''memory.search'' ''default''])"
  by (simp add: Validate_def noMemoryRequest_def HandleSearch_def testEnv_def testRequest_def
        denyingHandler_def testHandler_def denyAuthorizer_def)

text \<open>
  C5. When the decoded body has top_ke = 0 the handler makes no entry-search call on any
  path. If the request is authorized and valid and the embedder, LatestContext and
  SearchContexts succeed, the response is 200 with an empty entries list, count 0, the
  latest context with its timestamp and the contexts array, and the calls made are
  Authorize, Embed, LatestContext and SearchContexts, in this order.
\<close>

theorem HandleSearch_context_only:
  assumes "jsonDecode env (Body rq) = Inr r" and "TopKE r = Some 0"
  shows "\<not> list_ex isSearchCall (snd (HandleSearch env h rq))
    \<and> (\<forall>k a e ix vec lc ts chs.
          ExtractAPIKey env rq = Inr k \<and>
          authorizer h k ''memory.search'' ''default'' = Inr a \<and>
          fst (Validate r) = None \<and> emb h = Some e \<and> idx h = Some ix \<and>
          e (TrimSpace (Query r)) = Inr vec \<and>
          LatestContext ix (ActorID a) (MemoryID r) = Inr (lc, ts) \<and>
          SearchContexts ix (ActorID a) (MemoryID r) (TrimSpace (Query r)) vec
            (case TopKC r of None \<Rightarrow> 2 | Some kc \<Rightarrow> kc) (alpha h) = Inr chs \<longrightarrow>
          HandleSearch env h rq =
            (WriteJSON 200
               \<lparr>entries = [], count = 0, latestContext = lc,
                latestContextTimestamp = FormatRFC3339 env ts,
                contexts = buildContexts env chs\<rparr>,
             [AuthorizeCall k ''memory.search'' ''default'',
              EmbedCall (TrimSpace (Query r)),
              LatestContextCall (ActorID a) (MemoryID r),
              SearchContextsCall (ActorID a) (MemoryID r) (TrimSpace (Query r)) vec
                (case TopKC r of None \<Rightarrow> 2 | Some kc \<Rightarrow> kc) (alpha h)]))"
proof (intro conjI allI impI)
  show "\<not> list_ex isSearchCall (snd (HandleSearch env h rq))"
    using assms by (rule HandleSearch_no_entry_search)
next
  fix k a e ix vec lc ts chs
  assume H: "ExtractAPIKey env rq = Inr k \<and>
          authorizer h k ''memory.search'' ''default'' = Inr a \<and>
          fst (Validate r) = None \<and> emb h = Some e \<and> idx h = Some ix \<and>
          e (TrimSpace (Query r)) = Inr vec \<and>
          LatestContext ix (ActorID a) (MemoryID r) = Inr (lc, ts) \<and>
          SearchContexts ix (ActorID a) (MemoryID r) (TrimSpace (Query r)) vec
            (case TopKC r of None \<Rightarrow> 2 | Some kc \<Rightarrow> kc) (alpha h) = Inr chs"
  let ?req = "snd (Validate r)"
  from H assms have dec: "decodeSearchRequest env rq = Inr ?req"
    by (simp add: decode_valid)
  from H have v: "fst (Validate r) = None" by simp
  have q: "Query ?req = TrimSpace (Query r)" and m: "MemoryID ?req = MemoryID r"
    by (simp_all add: Validate_trims_Query Validate_keeps_MemoryID)
  have ke: "TopKE ?req = Some 0"
    using Validate_ok_top_k(1) [OF v] assms(2) by simp
  have kc: "TopKC ?req = Some (case TopKC r of None \<Rightarrow> 2 | Some kc \<Rightarrow> kc)"
    using Validate_ok_top_k(2) [OF v] .
  show "HandleSearch env h rq =
            (WriteJSON 200
               \<lparr>entries = [], count = 0, latestContext = lc,
                latestContextTimestamp = FormatRFC3339 env ts,
                contexts = buildContexts env chs\<rparr>,
             [AuthorizeCall k ''memory.search'' ''default'',
              EmbedCall (TrimSpace (Query r)),
              LatestContextCall (ActorID a) (MemoryID r),
              SearchContextsCall (ActorID a) (MemoryID r) (TrimSpace (Query r)) vec
                (case TopKC r of None \<Rightarrow> 2 | Some kc \<Rightarrow> kc) (alpha h)])"
    using HandleSearch_ok_context_only [of env rq k h a ?req e ix 0
            "case TopKC r of None \<Rightarrow> 2 | Some kc \<Rightarrow> kc" vec lc ts chs] H dec ke kc
    by (simp add: q m)
qed

theorem HandleSearch_context_only_witness:
  "HandleSearch (testEnv contextOnlyRequest) testHandler testRequest =
     (WriteJSON 200
        \<lparr>entries = [], count = 0, latestContext = ''ctx'',
         latestContextTimestamp = ''2025-07-27T01:00:00Z'',
         contexts = [\<lparr>context' = ''ctx'', timestamp = ''2025-07-27T01:00:00Z'', score = 8 / 10\<rparr>]\<rparr>,
      [AuthorizeCall ''test-api-key'' ''memory.search'' ''default'',
       EmbedCall ''hi'',
       LatestContextCall ''test-user'' ''m1'',
       SearchContextsCall ''test-user'' ''m1'' ''hi'' [1, 2] 1 (6 / 10)])"
proof -
  have d: "jsonDecode (testEnv contextOnlyRequest) (Body testRequest) = Inr contextOnlyRequest"
    by (simp add: testEnv_def)
  have k: "TopKE contextOnlyRequest = Some 0"
    by (simp add: contextOnlyRequest_def)
  show ?thesis
    using HandleSearch_context_only [OF d k, of testHandler]
    by (simp add: Validate_def contextOnlyRequest_def TrimSpace_fixtures
          testHandler_def mockAuthorizer_def mockEmbedder_def mockSearch_def
          buildContexts_def testEnv_def testRequest_def)
qed

text \<open>
  C6. For every request that is authorized, decodes and passes validation, on a handler
  configured with an embedder and an index, the handler calls Embed exactly once, with
  the trimmed query; every entry-search and context-search call it makes carries the
  vector that call returned; and when all collaborators succeed and top_ke is positive,
  both searches are made, with that one vector.
\<close>

theorem HandleSearch_embeds_query_once:
  assumes "ExtractAPIKey env rq = Inr k"
    and "authorizer h k ''memory.search'' ''default'' = Inr a"
    and "jsonDecode env (Body rq) = Inr r" and "fst (Validate r) = None"
    and "emb h = Some e" and "idx h = Some ix"
  shows "length (filter isEmbedCall (snd (HandleSearch env h rq))) = 1
    \<and> EmbedCall (TrimSpace (Query r)) \<in> set (snd (HandleSearch env h rq))
    \<and> (\<forall>c\<in>set (snd (HandleSearch env h rq)). \<forall>v.
          callVector c = Some v \<longrightarrow> e (TrimSpace (Query r)) = Inr v)
    \<and> (\<forall>vec hits lc ts chs.
          e (TrimSpace (Query r)) = Inr vec \<and>
          0 < (case TopKE r of None \<Rightarrow> 5 | Some ke \<Rightarrow> ke) \<and>
          Search ix (ActorID a) (MemoryID r) (TrimSpace (Query r)) vec
            (case TopKE r of None \<Rightarrow> 5 | Some ke \<Rightarrow> ke) (alpha h) (IncludeRawEntries r)
            = Inr hits \<and>
          LatestContext ix (ActorID a) (MemoryID r) = Inr (lc, ts) \<and>
          SearchContexts ix (ActorID a) (MemoryID r) (TrimSpace (Query r)) vec
            (case TopKC r of None \<Rightarrow> 2 | Some kc \<Rightarrow> kc) (alpha h) = Inr chs \<longrightarrow>
          snd (HandleSearch env h rq) =
            [AuthorizeCall k ''memory.search'' ''default'',
             EmbedCall (TrimSpace (Query r)),
             SearchCall (ActorID a) (MemoryID r) (TrimSpace (Query r)) vec
               (case TopKE r of None \<Rightarrow> 5 | Some ke \<Rightarrow> ke) (alpha h) (IncludeRawEntries r),
             LatestContextCall (ActorID a) (MemoryID r),
             SearchContextsCall (ActorID a) (MemoryID r) (TrimSpace (Query r)) vec
               (case TopKC r of None \<Rightarrow> 2 | Some kc \<Rightarrow> kc) (alpha h)])"
proof -
  let ?req = "snd (Validate r)"
  have dec: "decodeSearchRequest env rq = Inr ?req"
    using assms(3,4) by (rule decode_valid)
  have q: "Query ?req = TrimSpace (Query r)" and m: "MemoryID ?req = MemoryID r"
    by (simp_all add: Validate_trims_Query Validate_keeps_MemoryID)
  note d = Validate_ok_top_k [OF assms(4)]
  have once: "length (filter isEmbedCall (snd (HandleSearch env h rq))) = 1"
    using assms(1,2) dec assms(5,6) by (rule HandleSearch_embeds_once)
  have called: "EmbedCall (TrimSpace (Query r)) \<in> set (snd (HandleSearch env h rq))"
    using assms(1,2,5,6) dec q d(1,2)
    by (auto simp: HandleSearch_def Let_def split: sum.splits prod.splits)
  have same: "e (TrimSpace (Query r)) = Inr v"
    if "c \<in> set (snd (HandleSearch env h rq))" and "callVector c = Some v" for c v
    using HandleSearch_same_vector [OF assms(1,2) dec assms(5,6) that] q by simp
  have full: "snd (HandleSearch env h rq) =
            [AuthorizeCall k ''memory.search'' ''default'',
             EmbedCall (TrimSpace (Query r)),
             SearchCall (ActorID a) (MemoryID r) (TrimSpace (Query r)) vec
               (case TopKE r of None \<Rightarrow> 5 | Some ke \<Rightarrow> ke) (alpha h) (IncludeRawEntries r),
             LatestContextCall (ActorID a) (MemoryID r),
             SearchContextsCall (ActorID a) (MemoryID r) (TrimSpace (Query r)) vec
               (case TopKC r of None \<Rightarrow> 2 | Some kc \<Rightarrow> kc) (alpha h)]"
    if "e (TrimSpace (Query r)) = Inr vec"
      and "0 < (case TopKE r of None \<Rightarrow> 5 | Some ke \<Rightarrow> ke)"
      and "Search ix (ActorID a) (MemoryID r) (TrimSpace (Query r)) vec
            (case TopKE r of None \<Rightarrow> 5 | Some ke \<Rightarrow> ke) (alpha h) (IncludeRawEntries r)
            = Inr hits"
      and "LatestContext ix (ActorID a) (MemoryID r) = Inr (lc, ts)"
      and "SearchContexts ix (ActorID a) (MemoryID r) (TrimSpace (Query r)) vec
            (case TopKC r of None \<Rightarrow> 2 | Some kc \<Rightarrow> kc) (alpha h) = Inr chs"
    for vec hits lc ts chs
    using HandleSearch_ok_entries [of env rq k h a ?req e ix
            "case TopKE r of None \<Rightarrow> 5 | Some ke \<Rightarrow> ke"
            "case TopKC r of None \<Rightarrow> 2 | Some kc \<Rightarrow> kc" vec hits lc ts chs]
      assms(1,2,5,6) dec that
    by (simp add: q m d)
  show ?thesis
  proof (intro conjI)
    show "length (filter isEmbedCall (snd (HandleSearch env h rq))) = 1" by (rule once)
    show "EmbedCall (TrimSpace (Query r)) \<in> set (snd (HandleSearch env h rq))" by (rule called)
    show "\<forall>c\<in>set (snd (HandleSearch env h rq)). \<forall>v.
          callVector c = Some v \<longrightarrow> e (TrimSpace (Query r)) = Inr v"
      by (intro ballI allI impI) (rule same)
  qed (intro allI impI, elim conjE, rule full; assumption)
qed

theorem HandleSearch_embeds_query_once_witness:
  "length (filter isEmbedCall (snd (HandleSearch (testEnv defaultsRequest) testHandler testRequest))) = 1
   \<and> snd (HandleSearch (testEnv defaultsRequest) testHandler testRequest) =
       [AuthorizeCall ''test-api-key'' ''memory.search'' ''default'',
        EmbedCall ''hello'',
        SearchCall ''test-user'' ''m1'' ''hello'' [1, 2] 5 (6 / 10) False,
        LatestContextCall ''test-user'' ''m1'',
        SearchContextsCall ''test-user'' ''m1'' ''hello'' [1, 2] 2 (6 / 10)]"
proof -
  have k: "ExtractAPIKey (testEnv defaultsRequest) testRequest = Inr ''test-api-key''"
    by (rule testEnv_key)
  have a: "authorizer testHandler ''test-api-key'' ''memory.search'' ''default'' =
      Inr \<lparr>ActorID = ''test-user'', ProjectID = ''test-project'', OrgID = ''test-org'',
           KeyType = ''admin'', KeyName = ''Test Key'', Permissions = [''*'']\<rparr>"
    by (simp add: testHandler_def mockAuthorizer_def)
  have d: "jsonDecode (testEnv defaultsRequest) (Body testRequest) = Inr defaultsRequest"
    by (simp add: testEnv_def)
  have v: "fst (Validate defaultsRequest) = None"
    by (simp add: Validate_def defaultsRequest_def TrimSpace_fixtures)
  have e: "emb testHandler = Some mockEmbedder" and i: "idx testHandler = Some mockSearch"
    by (simp_all add: testHandler_def)
  have once: "length (filter isEmbedCall
      (snd (HandleSearch (testEnv defaultsRequest) testHandler testRequest))) = 1"
    using HandleSearch_embeds_query_once [OF k a d v e i] by (rule conjunct1)
  have run: "snd (HandleSearch (testEnv defaultsRequest) testHandler testRequest) =
       [AuthorizeCall ''test-api-key'' ''memory.search'' ''default'',
        EmbedCall ''hello'',
        SearchCall ''test-user'' ''m1'' ''hello'' [1, 2] 5 (6 / 10) False,
        LatestContextCall ''test-user'' ''m1'',
        SearchContextsCall ''test-user'' ''m1'' ''hello'' [1, 2] 2 (6 / 10)]"
    by (simp add: defaultsRequest_def TrimSpace_fixtures Validate_def HandleSearch_def
          decodeSearchRequest_def testEnv_def testRequest_def
          testHandler_def mockAuthorizer_def mockEmbedder_def mockSearch_def)
  show ?thesis using once run by (rule conjI)
qed

text \<open>
  C9. Validation trims the query and leaves memoryId as it is. A request whose memoryId is
  non-empty but consists of whitespace only (it trims to the empty string), with a valid
  query and valid top-k values, passes validation; every index read of the handler is
  scoped to that memoryId unchanged; and when all collaborators succeed the entry search,
  the latest-context lookup and the context search are all called with it.
\<close>

theorem Validate_keeps_blank_MemoryID:
  assumes "MemoryID r \<noteq> []" and "TrimSpace (MemoryID r) = []"
    and "TrimSpace (Query r) \<noteq> []"
    and "0 \<le> (case TopKE r of None \<Rightarrow> 5 | Some ke \<Rightarrow> ke)"
    and "(case TopKE r of None \<Rightarrow> 5 | Some ke \<Rightarrow> ke) \<le> 25"
    and "1 \<le> (case TopKC r of None \<Rightarrow> 2 | Some kc \<Rightarrow> kc)"
    and "(case TopKC r of None \<Rightarrow> 2 | Some kc \<Rightarrow> kc) \<le> 10"
  shows "fst (Validate r) = None
    \<and> MemoryID (snd (Validate r)) = MemoryID r
    \<and> Query (snd (Validate r)) = TrimSpace (Query r)
    \<and> (jsonDecode env (Body rq) = Inr r \<longrightarrow>
         (\<forall>c\<in>set (snd (HandleSearch env h rq)). \<forall>m.
            callMemory c = Some m \<longrightarrow> m = MemoryID r))
    \<and> (\<forall>k a e ix vec hits lc ts chs.
          jsonDecode env (Body rq) = Inr r \<and>
          ExtractAPIKey env rq = Inr k \<and>
          authorizer h k ''memory.search'' ''default'' = Inr a \<and>
          emb h = Some e \<and> idx h = Some ix \<and>
          e (TrimSpace (Query r)) = Inr vec \<and>
          0 < (case TopKE r of None \<Rightarrow> 5 | Some ke \<Rightarrow> ke) \<and>
          Search ix (ActorID a) (MemoryID r) (TrimSpace (Query r)) vec
            (case TopKE r of None \<Rightarrow> 5 | Some ke \<Rightarrow> ke) (alpha h) (IncludeRawEntries r)
            = Inr hits \<and>
          LatestContext ix (ActorID a) (MemoryID r) = Inr (lc, ts) \<and>
          SearchContexts ix (ActorID a) (MemoryID r) (TrimSpace (Query r)) vec
            (case TopKC r of None \<Rightarrow> 2 | Some kc \<Rightarrow> kc) (alpha h) = Inr chs \<longrightarrow>
          snd (HandleSearch env h rq) =
            [AuthorizeCall k ''memory.search'' ''default'',
             EmbedCall (TrimSpace (Query r)),
             SearchCall (ActorID a) (MemoryID r) (TrimSpace (Query r)) vec
               (case TopKE r of None \<Rightarrow> 5 | Some ke \<Rightarrow> ke) (alpha h) (IncludeRawEntries r),
             LatestContextCall (ActorID a) (MemoryID r),
             SearchContextsCall (ActorID a) (MemoryID r) (TrimSpace (Query r)) vec
               (case TopKC r of None \<Rightarrow> 2 | Some kc \<Rightarrow> kc) (alpha h)])"
proof -
  let ?req = "snd (Validate r)"
  have v: "fst (Validate r) = None"
    using assms Validate_fails_iff [of r] by (auto split: option.splits)
  have q: "Query ?req = TrimSpace (Query r)" and m: "MemoryID ?req = MemoryID r"
    by (simp_all add: Validate_trims_Query Validate_keeps_MemoryID)
  note d = Validate_ok_top_k [OF v]
  have mem: "m' = MemoryID r"
    if "jsonDecode env (Body rq) = Inr r"
      and "c \<in> set (snd (HandleSearch env h rq))" and "callMemory c = Some m'" for c m'
    using HandleSearch_call_memory [OF decode_valid [OF that(1) v] that(2,3)] m by simp
  have full: "snd (HandleSearch env h rq) =
            [AuthorizeCall k ''memory.search'' ''default'',
             EmbedCall (TrimSpace (Query r)),
             SearchCall (ActorID a) (MemoryID r) (TrimSpace (Query r)) vec
               (case TopKE r of None \<Rightarrow> 5 | Some ke \<Rightarrow> ke) (alpha h) (IncludeRawEntries r),
             LatestContextCall (ActorID a) (MemoryID r),
             SearchContextsCall (ActorID a) (MemoryID r) (TrimSpace (Query r)) vec
               (case TopKC r of None \<Rightarrow> 2 | Some kc \<Rightarrow> kc) (alpha h)]"
    if "jsonDecode env (Body rq) = Inr r"
      and "ExtractAPIKey env rq = Inr k"
      and "authorizer h k ''memory.search'' ''default'' = Inr a"
      and "emb h = Some e" and "idx h = Some ix"
      and "e (TrimSpace (Query r)) = Inr vec"
      and "0 < (case TopKE r of None \<Rightarrow> 5 | Some ke \<Rightarrow> ke)"
      and "Search ix (ActorID a) (MemoryID r) (TrimSpace (Query r)) vec
            (case TopKE r of None \<Rightarrow> 5 | Some ke \<Rightarrow> ke) (alpha h) (IncludeRawEntries r)
            = Inr hits"
      and "LatestContext ix (ActorID a) (MemoryID r) = Inr (lc, ts)"
      and "SearchContexts ix (ActorID a) (MemoryID r) (TrimSpace (Query r)) vec
            (case TopKC r of None \<Rightarrow> 2 | Some kc \<Rightarrow> kc) (alpha h) = Inr chs"
    for k a e ix vec hits lc ts chs
    using HandleSearch_ok_entries [of env rq k h a ?req e ix
            "case TopKE r of None \<Rightarrow> 5 | Some ke \<Rightarrow> ke"
            "case TopKC r of None \<Rightarrow> 2 | Some kc \<Rightarrow> kc" vec hits lc ts chs]
      decode_valid [OF that(1) v] that
    by (simp add: q m d)
  show ?thesis
  proof (intro conjI)
    show "fst (Validate r) = None" by (rule v)
    show "MemoryID (snd (Validate r)) = MemoryID r" by (rule m)
    show "Query (snd (Validate r)) = TrimSpace (Query r)" by (rule q)
    show "jsonDecode env (Body rq) = Inr r \<longrightarrow>
         (\<forall>c\<in>set (snd (HandleSearch env h rq)). \<forall>m.
            callMemory c = Some m \<longrightarrow> m = MemoryID r)"
      by (intro ballI allI impI) (rule mem)
  qed (intro allI impI, elim conjE, rule full; assumption)
qed

theorem Validate_keeps_blank_MemoryID_witness:
  "fst (Validate blankMemoryRequest) = None
   \<and> MemoryID blankMemoryRequest = ''   '' \<and> TrimSpace ''   '' = []
   \<and> HandleSearch (testEnv blankMemoryRequest) testHandler testRequest =
       (WriteJSON 200
          \<lparr>entries = [\<lparr>EntryID = ''e1'', Summary = ''s'', Score = 9 / 10,
                        CreationTime = ''2025-07-27T00:00:00Z''\<rparr>],
           count = 1, latestContext = ''ctx'',
           latestContextTimestamp = ''2025-07-27T01:00:00Z'',
           contexts = [\<lparr>context' = ''ctx'', timestamp = ''2025-07-27T01:00:00Z'',
                        score = 8 / 10\<rparr>]\<rparr>,
        [AuthorizeCall ''test-api-key'' ''memory.search'' ''default'',
         EmbedCall ''hi'',
         SearchCall ''test-user'' ''   '' ''hi'' [1, 2] 2 (6 / 10) False,
         LatestContextCall ''test-user'' ''   '',
         SearchContextsCall ''test-user'' ''   '' ''hi'' [1, 2] 1 (6 / 10)])"
proof -
  have m: "MemoryID blankMemoryRequest \<noteq> []" "TrimSpace (MemoryID blankMemoryRequest) = []"
    and q: "TrimSpace (Query blankMemoryRequest) \<noteq> []"
    and ke: "0 \<le> (case TopKE blankMemoryRequest of None \<Rightarrow> 5 | Some ke \<Rightarrow> ke)"
      "(case TopKE blankMemoryRequest of None \<Rightarrow> 5 | Some ke \<Rightarrow> ke) \<le> 25"
    and kc: "1 \<le> (case TopKC blankMemoryRequest of None \<Rightarrow> 2 | Some kc \<Rightarrow> kc)"
      "(case TopKC blankMemoryRequest of None \<Rightarrow> 2 | Some kc \<Rightarrow> kc) \<le> 10"
    by (simp_all add: blankMemoryRequest_def TrimSpace_fixtures)
  have ok: "fst (Validate blankMemoryRequest) = None"
    using Validate_keeps_blank_MemoryID
            [OF m q ke kc, of "testEnv blankMemoryRequest" testRequest testHandler]
    by (rule conjunct1)
  have blank: "MemoryID blankMemoryRequest = ''   '' \<and> TrimSpace ''   '' = []"
    by (simp add: blankMemoryRequest_def TrimSpace_fixtures)
  have run: "HandleSearch (testEnv blankMemoryRequest) testHandler testRequest =
       (WriteJSON 200
          \<lparr>entries = [\<lparr>EntryID = ''e1'', Summary = ''s'', Score = 9 / 10,
                        CreationTime = ''2025-07-27T00:00:00Z''\<rparr>],
           count = 1, latestContext = ''ctx'',
           latestContextTimestamp = ''2025-07-27T01:00:00Z'',
           contexts = [\<lparr>context' = ''ctx'', timestamp = ''2025-07-27T01:00:00Z'',
                        score = 8 / 10\<rparr>]\<rparr>,
        [AuthorizeCall ''test-api-key'' ''memory.search'' ''default'',
         EmbedCall ''hi'',
         SearchCall ''test-user'' ''   '' ''hi'' [1, 2] 2 (6 / 10) False,
         LatestContextCall ''test-user'' ''   '',
         SearchContextsCall ''test-user'' ''   '' ''hi'' [1, 2] 1 (6 / 10)])"
    by (simp add: blankMemoryRequest_def TrimSpace_fixtures Validate_def HandleSearch_def
          decodeSearchRequest_def buildContexts_def testEnv_def testRequest_def
          testHandler_def mockAuthorizer_def mockEmbedder_def mockSearch_def)
  show ?thesis using ok blank run by simp
qed

section \<open>Claims about the MCP tool\<close>

text \<open>
  C10. In the search_memories tool a top_ke or top_kc argument that is not a number (a
  string such as "26", an integer-typed value, null) is ignored: the handler behaves as if
  the argument were absent, so with both ignored it calls the client with top_ke = 5 and
  top_kc = 2 and returns no range error. The range checks apply to arguments that are
  numbers: a number outside the range returns the error without calling the client.
\<close>

theorem handleSearch_ignores_non_numbers:
  "((\<forall>v. args ''top_ke'' \<noteq> Some (AFloat64 v)) \<longrightarrow>
      handleSearch cs args = handleSearch cs (args(''top_ke'' := None)))
   \<and> ((\<forall>v. args ''top_kc'' \<noteq> Some (AFloat64 v)) \<longrightarrow>
      handleSearch cs args = handleSearch cs (args(''top_kc'' := None)))
   \<and> ((\<forall>v. args ''top_ke'' \<noteq> Some (AFloat64 v)) \<and>
       (\<forall>v. args ''top_kc'' \<noteq> Some (AFloat64 v)) \<longrightarrow>
      handleSearch cs args =
        (let creq = \<lparr>MemoryID = RequireString args ''memory_id'',
                     Query = RequireString args ''query'',
                     TopKE = Some 5, TopKC = Some 2,
                     IncludeRawEntries =
                       (case args ''include_raw_entries'' of Some (ABool v) \<Rightarrow> v | _ \<Rightarrow> False)\<rparr>
         in (case cs creq of
               Inl err \<Rightarrow> (ToolResultError (''search failed: '' @ err), [creq])
             | Inr resp \<Rightarrow> (ToolResultText resp, [creq]))))
   \<and> (\<forall>v. args ''top_ke'' = Some (AFloat64 v) \<and>
          (float64ToInt v < 0 \<or> 25 < float64ToInt v) \<longrightarrow>
      handleSearch cs args = (ToolResultError ''top_ke must be between 0 and 25'', []))
   \<and> (\<forall>v. (\<forall>u. args ''top_ke'' \<noteq> Some (AFloat64 u)) \<and>
          args ''top_kc'' = Some (AFloat64 v) \<and>
          (float64ToInt v < 1 \<or> 10 < float64ToInt v) \<longrightarrow>
      handleSearch cs args = (ToolResultError ''top_kc must be between 1 and 10'', []))"
proof (intro conjI allI impI)
  assume "\<forall>v. args ''top_ke'' \<noteq> Some (AFloat64 v)"
  then show "handleSearch cs args = handleSearch cs (args(''top_ke'' := None))"
    by (rule handleSearch_top_ke_ignored)
next
  assume "\<forall>v. args ''top_kc'' \<noteq> Some (AFloat64 v)"
  then show "handleSearch cs args = handleSearch cs (args(''top_kc'' := None))"
    by (rule handleSearch_top_kc_ignored)
next
  assume "(\<forall>v. args ''top_ke'' \<noteq> Some (AFloat64 v)) \<and>
       (\<forall>v. args ''top_kc'' \<noteq> Some (AFloat64 v))"
  then show "handleSearch cs args =
        (let creq = \<lparr>MemoryID = RequireString args ''memory_id'',
                     Query = RequireString args ''query'',
                     TopKE = Some 5, TopKC = Some 2,
                     IncludeRawEntries =
                       (case args ''include_raw_entries'' of Some (ABool v) \<Rightarrow> v | _ \<Rightarrow> False)\<rparr>
         in (case cs creq of
               Inl err \<Rightarrow> (ToolResultError (''search failed: '' @ err), [creq])
             | Inr resp \<Rightarrow> (ToolResultText resp, [creq])))"
    using handleSearch_defaults [of args cs] by blast
next
  fix v
  assume "args ''top_ke'' = Some (AFloat64 v) \<and> (float64ToInt v < 0 \<or> 25 < float64ToInt v)"
  then show "handleSearch cs args = (ToolResultError ''top_ke must be between 0 and 25'', [])"
    using handleSearch_top_ke_checked [of args v cs] by blast
next
  fix v
  assume "(\<forall>u. args ''top_ke'' \<noteq> Some (AFloat64 u)) \<and>
          args ''top_kc'' = Some (AFloat64 v) \<and>
          (float64ToInt v < 1 \<or> 10 < float64ToInt v)"
  then show "handleSearch cs args = (ToolResultError ''top_kc must be between 1 and 10'', [])"
    using handleSearch_top_kc_checked [of args v cs] by blast
qed

theorem handleSearch_ignores_non_numbers_witness:
  "handleSearch stubClient textualTopK =
     (ToolResultText ''ok'',
      [\<lparr>MemoryID = ''m1'', Query = ''hello'', TopKE = Some 5, TopKC = Some 2,
        IncludeRawEntries = False\<rparr>])
   \<and> handleSearch stubClient (textualTopK(''top_ke'' \<mapsto> AFloat64 26)) =
     (ToolResultError ''top_ke must be between 0 and 25'', [])"
proof -
  have ke: "\<forall>v. textualTopK ''top_ke'' \<noteq> Some (AFloat64 v)"
    and kc: "\<forall>v. textualTopK ''top_kc'' \<noteq> Some (AFloat64 v)"
    by (simp_all add: textualTopK_def)
  have "handleSearch stubClient textualTopK =
        (let creq = \<lparr>MemoryID = RequireString textualTopK ''memory_id'',
                     Query = RequireString textualTopK ''query'',
                     TopKE = Some 5, TopKC = Some 2,
                     IncludeRawEntries =
                       (case textualTopK ''include_raw_entries'' of
                          Some (ABool v) \<Rightarrow> v | _ \<Rightarrow> False)\<rparr>
         in (case stubClient creq of
               Inl err \<Rightarrow> (ToolResultError (''search failed: '' @ err), [creq])
             | Inr resp \<Rightarrow> (ToolResultText resp, [creq])))"
    using handleSearch_ignores_non_numbers [of textualTopK stubClient] ke kc by blast
  then have ignored: "handleSearch stubClient textualTopK =
     (ToolResultText ''ok'',
      [\<lparr>MemoryID = ''m1'', Query = ''hello'', TopKE = Some 5, TopKC = Some 2,
        IncludeRawEntries = False\<rparr>])"
    by (simp add: textualTopK_def stubClient_def RequireString_def)
  have checked: "handleSearch stubClient (textualTopK(''top_ke'' \<mapsto> AFloat64 26)) =
     (ToolResultError ''top_ke must be between 0 and 25'', [])"
    by (simp add: handleSearch_def Let_def float64ToInt_def)
  show ?thesis using ignored checked by (rule conjI)
qed

section \<open>Claims about the outbox worker\<close>

text \<open>
  C1. For an upsert_entry job in which neither summary nor rawEntry, and for an
  upsert_context job in which context does not, hold a string that is non-empty after
  trimming (the key is missing, the value is no string, or it trims to nothing), handle
  calls neither the embedder nor the index and returns nil, so the job is marked done.
\<close>

theorem handle_skips_empty_text:
  assumes "(op j = OpUpsertEntry \<and>
            (\<forall>k\<in>set [''summary'', ''rawEntry'']. \<forall>s.
               payload j k = Some (AString s) \<longrightarrow> TrimSpace s = []))
         \<or> (op j = OpUpsertContext \<and>
            (\<forall>k\<in>set [''context'']. \<forall>s.
               payload j k = Some (AString s) \<longrightarrow> TrimSpace s = []))"
  shows "handle w j = (None, []) \<and> settle c n (fst (handle w j)) = Done"
proof -
  have "handle w j = (None, [])"
    using assms
  proof
    assume a: "op j = OpUpsertEntry \<and>
            (\<forall>k\<in>set [''summary'', ''rawEntry'']. \<forall>s.
               payload j k = Some (AString s) \<longrightarrow> TrimSpace s = [])"
    then have "preferredText (payload j) [''summary'', ''rawEntry''] = []"
      by (intro preferredText_none) simp
    with a show ?thesis by (simp add: handle_def upsertWith_def)
  next
    assume a: "op j = OpUpsertContext \<and>
            (\<forall>k\<in>set [''context'']. \<forall>s.
               payload j k = Some (AString s) \<longrightarrow> TrimSpace s = [])"
    then have "preferredText (payload j) [''context''] = []"
      by (intro preferredText_none) simp
    with a show ?thesis by (simp add: handle_def upsertWith_def ops_distinct)
  qed
  then show ?thesis by (simp add: settle_def)
qed

theorem handle_skips_empty_text_witness:
  "handle testWorker emptyTextJob = (None, [])
   \<and> settle (cfg testWorker) 0 (fst (handle testWorker emptyTextJob)) = Done
   \<and> handle testWorker emptyContextJob = (None, [])
   \<and> settle (cfg testWorker) 0 (fst (handle testWorker emptyContextJob)) = Done"
proof -
  have e: "(op emptyTextJob = OpUpsertEntry \<and>
            (\<forall>k\<in>set [''summary'', ''rawEntry'']. \<forall>s.
               payload emptyTextJob k = Some (AString s) \<longrightarrow> TrimSpace s = []))
         \<or> (op emptyTextJob = OpUpsertContext \<and>
            (\<forall>k\<in>set [''context'']. \<forall>s.
               payload emptyTextJob k = Some (AString s) \<longrightarrow> TrimSpace s = []))"
    by (simp add: emptyTextJob_def TrimSpace_job_texts)
  have x: "(op emptyContextJob = OpUpsertEntry \<and>
            (\<forall>k\<in>set [''summary'', ''rawEntry'']. \<forall>s.
               payload emptyContextJob k = Some (AString s) \<longrightarrow> TrimSpace s = []))
         \<or> (op emptyContextJob = OpUpsertContext \<and>
            (\<forall>k\<in>set [''context'']. \<forall>s.
               payload emptyContextJob k = Some (AString s) \<longrightarrow> TrimSpace s = []))"
    by (simp add: emptyContextJob_def TrimSpace_job_texts)
  show ?thesis
    using handle_skips_empty_text [OF e, of testWorker "cfg testWorker" 0]
      handle_skips_empty_text [OF x, of testWorker "cfg testWorker" 0]
    by blast
qed

text \<open>
  C2. Whatever index call handle ends with, if the index answers it with an error whose
  message contains \<open>already exists\<close> or \<open>status code: 422\<close> (byte for byte), handle
  returns nil and the job is marked done; for every other error handle returns that error,
  and the job is retried (or dead once the attempts are used up), never done.
\<close>

theorem handle_index_error:
  assumes "snd (handle w j) \<noteq> []"
    and "isIndexCall (last (snd (handle w j)))"
    and "indexReply (index w) (last (snd (handle w j))) = Some e"
  shows "fst (handle w j) =
           (if Contains e ''already exists'' \<or> Contains e ''status code: 422''
            then None else Some e)
    \<and> settle c n (fst (handle w j)) =
           (if Contains e ''already exists'' \<or> Contains e ''status code: 422''
            then Done else if MaxAttempts c \<le> n + 1 then Dead else Retry)"
  using handle_index_outcome [OF assms]
  by (simp add: indexOutcome_Some settle_def)

theorem handle_index_error_witness:
  "handle (failingWorker ''object already exists in index'') duplicateJob =
     (None, [EmbedCall ''Duplicate entry'',
             UpsertEntryCall ''existing-entry-id'' [1, 2] (payload duplicateJob)])
   \<and> fst (handle (failingWorker ''status code: 422 unprocessable entity'') duplicateJob) = None
   \<and> fst (handle (failingWorker ''connection refused'') duplicateJob) = Some ''connection refused''
   \<and> fst (handle (failingWorker ''Already Exists in index'') duplicateJob) =
       Some ''Already Exists in index''"
proof -
  have run: "handle (failingWorker msg) duplicateJob =
     (indexOutcome (Some msg),
      [EmbedCall ''Duplicate entry'',
       UpsertEntryCall ''existing-entry-id'' [1, 2] (payload duplicateJob)])" for msg
    by (simp add: handle_def upsertWith_def duplicateJob_def TrimSpace_job_texts
          failingWorker_def testWorker_def mockEmbedder_def mockSearch_def)
  have h: "snd (handle (failingWorker msg) duplicateJob) \<noteq> []"
    "isIndexCall (last (snd (handle (failingWorker msg) duplicateJob)))" for msg
    by (simp_all add: run)
  have r: "indexReply (index (failingWorker msg)) (last (snd (handle (failingWorker msg) duplicateJob)))
       = Some msg" for msg
    by (simp add: run) (simp add: failingWorker_def)
  note T = handle_index_error [OF h r, of _ "cfg testWorker" 0, THEN conjunct1]
  have "fst (handle (failingWorker ''object already exists in index'') duplicateJob) = None"
    using T [of "''object already exists in index''"] by simp
  moreover have "fst (handle (failingWorker ''status code: 422 unprocessable entity'') duplicateJob) = None"
    using T [of "''status code: 422 unprocessable entity''"] by simp
  moreover have "fst (handle (failingWorker ''connection refused'') duplicateJob) = Some ''connection refused''"
    using T [of "''connection refused''"] by simp
  moreover have "fst (handle (failingWorker ''Already Exists in index'') duplicateJob) =
       Some ''Already Exists in index''"
    using T [of "''Already Exists in index''"] by simp
  ultimately show ?thesis
    using run [of "''object already exists in index''"] by simp
qed

text \<open>
  C7. For an upsert_entry job in which both summary and rawEntry are non-empty strings
  (non-empty as the text-selection rule counts it: after trimming leading and trailing
  whitespace), handle calls Embed with the summary as it is, never with the rawEntry
  in its place, and if the embedding succeeds the one following call is UpsertEntry with
  the job's id, the vector and the payload map of the job unchanged.
\<close>

theorem handle_embeds_summary:
  assumes "op j = OpUpsertEntry"
    and "payload j ''summary'' = Some (AString s)" and "TrimSpace s \<noteq> []"
    and "payload j ''rawEntry'' = Some (AString r)" and "TrimSpace r \<noteq> []"
  shows "snd (handle w j) =
     (case embedder w s of
        Inl err \<Rightarrow> [EmbedCall s]
      | Inr vec \<Rightarrow> [EmbedCall s, UpsertEntryCall (aggregateID j) vec (payload j)])"
  using assms(1,2,3) by (rule handle_summary_preferred)

theorem handle_embeds_summary_witness:
  "snd (handle testWorker bothPresentJob) =
     [EmbedCall ''This is the summary'',
      UpsertEntryCall ''test-entry-id'' [1, 2] (payload bothPresentJob)]"
proof -
  have o: "op bothPresentJob = OpUpsertEntry"
    and p: "payload bothPresentJob ''summary'' = Some (AString ''This is the summary'')"
    and t: "TrimSpace ''This is the summary'' \<noteq> []"
    and q: "payload bothPresentJob ''rawEntry'' = Some (AString ''This is the raw entry'')"
    and u: "TrimSpace ''This is the raw entry'' \<noteq> []"
    by (simp_all add: bothPresentJob_def TrimSpace_job_texts)
  have a: "aggregateID bothPresentJob = ''test-entry-id''"
    by (simp add: bothPresentJob_def)
  show ?thesis
    using handle_embeds_summary [OF o p t q u, of testWorker]
    by (simp add: testWorker_def mockEmbedder_def a)
qed

text \<open>
  C8. For a job whose op is none of the six recognized operations, the empty string
  included, handle returns an error whose message contains \<open>unknown op\<close> and makes no
  call at all. The error is the same for every embedder and index, so no retry can
  succeed, and the job is never marked done.
\<close>

theorem handle_unknown_op:
  assumes "op j \<notin> set recognizedOps"
  shows "handle w j = (Some (''unknown op '' @ op j), [])
    \<and> Contains (''unknown op '' @ op j) ''unknown op''
    \<and> settle c n (fst (handle w j)) \<noteq> Done"
proof -
  have h: "handle w j = (Some (''unknown op '' @ op j), [])"
    using assms by (simp add: handle_def recognizedOps_def)
  have "prefix ''unknown op'' (''unknown op '' @ op j)"
    by simp
  then have "Contains (''unknown op '' @ op j) ''unknown op''"
    by (rule Contains_prefix)
  with h show ?thesis by (simp add: settle_def)
qed

theorem handle_unknown_op_witness:
  "handle testWorker unknownOpJob = (Some ''unknown op invalid_operation'', [])
   \<and> handle testWorker emptyOpJob = (Some ''unknown op '', [])"
proof -
  have u: "op unknownOpJob \<notin> set recognizedOps" and e: "op emptyOpJob \<notin> set recognizedOps"
    by (simp_all add: unknownOpJob_def emptyOpJob_def recognizedOps_def OpUpsertEntry_def
          OpUpsertContext_def OpDeleteEntry_def OpDeleteContext_def OpDeleteMemory_def
          OpDeleteVault_def)
  show ?thesis
    using handle_unknown_op [OF u, of testWorker "cfg testWorker" 0, THEN conjunct1]
      handle_unknown_op [OF e, of testWorker "cfg testWorker" 0, THEN conjunct1]
    by (simp add: unknownOpJob_def emptyOpJob_def)
qed

end
